theory Spec2Isabelle
  imports Complex_Main
begin

section \<open>The browser: text, network results and interval timers\<close>

text \<open>
  The three scripts are browser pages: \<^verbatim>\<open>src/static/js/workbench.js\<close> (the workbench,
  constants prefixed \<open>wb_\<close>), \<^verbatim>\<open>src/unnamed/part_000\<close> (the page that uploads a document
  and dispatches all of its batches, prefix \<open>bp_\<close>) and \<^verbatim>\<open>src/unnamed/part_001\<close> (the
  whole-document page, prefix \<open>sp_\<close>). Each page has its own globals, so each has its own state
  record. A handler or timer callback is a function from state to state, and what the server
  answers to a request is a parameter. A callback of a poller is taken with its answers in one
  step. The upload and the dispatch loop of the batch page are not: they stop at every
  \<^verbatim>\<open>await\<close> and go on when the answer arrives, and other events fall in between.

  The scripts compute the width of a progress bar and a page text from the numbers of a status
  answer, in floating point, and write them into the page. These two pieces of markup are not
  part of the state here, like the rest of the markup that no function reads back.
\<close>

definition digit_char :: "nat \<Rightarrow> char" where
  "digit_char d = char_of (48 + d)"

fun show_nat :: "nat \<Rightarrow> string" where
  "show_nat n = (if n < 10 then [digit_char n] else show_nat (n div 10) @ [digit_char (n mod 10)])"

declare show_nat.simps [simp del]

text \<open>The outcome of \<^verbatim>\<open>await fetch(...)\<close> followed by \<^verbatim>\<open>await response.json()\<close>: the
  parsed body, or an exception (no connection, a body that is not JSON).\<close>

datatype 'a fetched = Throws | Returns 'a

datatype effect =
    Fetch string string
  | ConsoleError string
  | Alert string

datatype callback =
    LoadDocuments
  | PollBatchStatus string nat string
  | PollStatus string

type_synonym handle = nat

text \<open>The browser's table of running interval timers, each with its callback (and the variables
  the callback closed over) and its period in milliseconds. Handles are issued from a counter,
  as browsers do. The trace lists the requests and console messages of the page, oldest first.\<close>

record browser =
  timers :: "handle \<rightharpoonup> callback \<times> nat"
  next_handle :: handle
  trace :: "effect list"

definition setInterval :: "callback \<Rightarrow> nat \<Rightarrow> 'a browser_scheme \<Rightarrow> handle \<times> 'a browser_scheme" where
  "setInterval cb ms b =
     (next_handle b,
      b\<lparr>timers := (timers b)(next_handle b \<mapsto> (cb, ms)), next_handle := Suc (next_handle b)\<rparr>)"

text \<open>\<^verbatim>\<open>clearInterval(undefined)\<close> and \<^verbatim>\<open>clearInterval(null)\<close> do nothing, and so does
  clearing a handle that is not running.\<close>

definition clearInterval :: "handle option \<Rightarrow> 'a browser_scheme \<Rightarrow> 'a browser_scheme" where
  "clearInterval h b = (case h of None \<Rightarrow> b | Some i \<Rightarrow> b\<lparr>timers := (timers b)(i := None)\<rparr>)"

definition emit :: "effect \<Rightarrow> 'a browser_scheme \<Rightarrow> 'a browser_scheme" where
  "emit e b = b\<lparr>trace := trace b @ [e]\<rparr>"

section \<open>Data received from the server\<close>

record batch =
  b_start :: int
  b_end :: int
  b_status :: string
  b_job_id :: "string option"
  b_result_file :: "string option"

record document =
  doc_id :: string
  filename :: string
  total_pages :: int
  batch_size :: "int option"
  batches :: "batch list"

record job_status =
  st_status :: string
  st_current_page :: int
  st_total_pages :: int
  st_message :: string
  st_filename :: string

record dispatch_result =
  dr_success :: bool
  dr_job_id :: string
  dr_error :: string

record upload_result =
  up_success :: bool
  up_doc_id :: string
  up_filename :: string
  up_total_pages :: int
  up_batches :: "batch list"
  up_error :: string

section \<open>File selection (the same code in part_000 and part_001)\<close>

record js_file =
  f_name :: string
  f_type :: string

record page = browser +
  selectedFile :: "js_file option"
  processBtn_disabled :: bool
  fileName_text :: string
  fileSelected_display :: string
  drag_over :: bool
  statusProcessing_display :: string
  statusSuccess_display :: string
  statusError_display :: string
  errorMessage_text :: string

definition showSelectedFile :: "string \<Rightarrow> 'a page_scheme \<Rightarrow> 'a page_scheme" where
  "showSelectedFile fileName s = s\<lparr>fileName_text := fileName, fileSelected_display := ''flex''\<rparr>"

text \<open>\<^verbatim>\<open>event.target.files[0]\<close> of an empty file list is undefined, which is falsy.\<close>

definition handleFileSelect :: "js_file list \<Rightarrow> 'a page_scheme \<Rightarrow> 'a page_scheme" where
  "handleFileSelect files s =
     (case files of
        [] \<Rightarrow> s
      | f # _ \<Rightarrow>
          if f_type f = ''application/pdf''
          then (showSelectedFile (f_name f) (s\<lparr>selectedFile := Some f\<rparr>))\<lparr>processBtn_disabled := False\<rparr>
          else s)"

definition handleDragOver :: "'a page_scheme \<Rightarrow> 'a page_scheme" where
  "handleDragOver s = s\<lparr>drag_over := True\<rparr>"

definition handleDragLeave :: "'a page_scheme \<Rightarrow> 'a page_scheme" where
  "handleDragLeave s = s\<lparr>drag_over := False\<rparr>"

definition handleDrop :: "js_file list \<Rightarrow> 'a page_scheme \<Rightarrow> 'a page_scheme" where
  "handleDrop files s0 =
     (let s = s0\<lparr>drag_over := False\<rparr> in
      case files of
        [] \<Rightarrow> s
      | f # _ \<Rightarrow>
          if f_type f = ''application/pdf''
          then (showSelectedFile (f_name f) (s\<lparr>selectedFile := Some f\<rparr>))\<lparr>processBtn_disabled := False\<rparr>
          else s)"

definition hideStatusMessages :: "'a page_scheme \<Rightarrow> 'a page_scheme" where
  "hideStatusMessages s =
     s\<lparr>statusProcessing_display := ''none'', statusSuccess_display := ''none'',
       statusError_display := ''none''\<rparr>"

section \<open>The whole-document page (part_001)\<close>

record process_result =
  pr_success :: bool
  pr_job_id :: string
  pr_error :: string

record sp_state = page +
  statusPollInterval :: "handle option"
  currentResultFilename :: "string option"
  processingMessage_text :: string
  downloadLink_href :: string

text \<open>\<^verbatim>\<open>pollStatus(jobId)\<close>, the body of the interval callback. The three branches of the
  source are kept in their order; any other status string falls through all of them. Of the
  processing branch the state keeps the message; the bar and the page text are markup.\<close>

definition status_url :: "string \<Rightarrow> string" where
  "status_url jobId = ''/status/'' @ jobId"

definition pollStatus :: "string \<Rightarrow> job_status fetched \<Rightarrow> sp_state \<Rightarrow> sp_state" where
  "pollStatus jobId resp s0 =
     (let s = emit (Fetch ''GET'' (status_url jobId)) s0 in
      case resp of
        Throws \<Rightarrow> emit (ConsoleError ''Status poll error:'') s
      | Returns st \<Rightarrow>
          if st_status st = ''processing'' then
            s\<lparr>processingMessage_text := st_message st\<rparr>
          else if st_status st = ''complete'' then
            (hideStatusMessages (clearInterval (statusPollInterval s) s))
              \<lparr>currentResultFilename := Some (st_filename st),
               downloadLink_href := ''/download/'' @ st_filename st,
               statusSuccess_display := ''flex'',
               processBtn_disabled := False\<rparr>
          else if st_status st = ''error'' then
            (hideStatusMessages (clearInterval (statusPollInterval s) s))
              \<lparr>errorMessage_text := st_message st,
               statusError_display := ''flex'',
               processBtn_disabled := False\<rparr>
          else s)"

definition sp_fail :: "string \<Rightarrow> sp_state \<Rightarrow> sp_state" where
  "sp_fail msg s =
     (hideStatusMessages s)
       \<lparr>errorMessage_text := msg, statusError_display := ''flex'', processBtn_disabled := False\<rparr>"

text \<open>\<^verbatim>\<open>processFile()\<close> of part_001. \<^verbatim>\<open>result.success && result.job_id\<close> is falsy for an
  empty or absent job id, and \<^verbatim>\<open>result.error || 'Processing failed'\<close> takes the default for
  an empty or absent error text.\<close>

definition sp_processFile :: "process_result fetched \<Rightarrow> sp_state \<Rightarrow> sp_state" where
  "sp_processFile resp s0 =
     (case selectedFile s0 of
        None \<Rightarrow> s0
      | Some f \<Rightarrow>
          (let s1 = (hideStatusMessages s0)
                      \<lparr>statusProcessing_display := ''flex'',
                       processBtn_disabled := True,
                       processingMessage_text := ''Starting processing...''\<rparr>;
               s = emit (Fetch ''POST'' ''/process'') s1
           in case resp of
                Throws \<Rightarrow> sp_fail ''Network error occurred'' s
              | Returns result \<Rightarrow>
                  if pr_success result \<and> pr_job_id result \<noteq> [] then
                    (case setInterval (PollStatus (pr_job_id result)) 500 s of
                       (h, s') \<Rightarrow> s'\<lparr>statusPollInterval := Some h\<rparr>)
                  else sp_fail (if pr_error result \<noteq> [] then pr_error result
                                else ''Processing failed'') s))"

text \<open>What can happen on the page: the user's gestures and the firing of a running timer.
  A disabled button takes no click, and a handle that is not running does not fire.\<close>

datatype sp_event =
    SpFileSelect "js_file list"
  | SpDrop "js_file list"
  | SpDragOver
  | SpDragLeave
  | SpClickProcess "process_result fetched"
  | SpTick handle "job_status fetched"

fun sp_step :: "sp_event \<Rightarrow> sp_state \<Rightarrow> sp_state" where
  "sp_step (SpFileSelect files) s = handleFileSelect files s"
| "sp_step (SpDrop files) s = handleDrop files s"
| "sp_step SpDragOver s = handleDragOver s"
| "sp_step SpDragLeave s = handleDragLeave s"
| "sp_step (SpClickProcess resp) s = (if processBtn_disabled s then s else sp_processFile resp s)"
| "sp_step (SpTick h resp) s =
     (case timers s h of
        Some (PollStatus jobId, ms) \<Rightarrow> pollStatus jobId resp s
      | _ \<Rightarrow> s)"

fun sp_run :: "sp_event list \<Rightarrow> sp_state \<Rightarrow> sp_state" where
  "sp_run [] s = s"
| "sp_run (e # es) s = sp_run es (sp_step e s)"

text \<open>The page as loaded. The markup is not among the sources, so whether the process
  button starts disabled is a parameter.\<close>

definition sp_init :: "bool \<Rightarrow> sp_state" where
  "sp_init btn =
     \<lparr>timers = Map.empty, next_handle = 1, trace = [],
      selectedFile = None, processBtn_disabled = btn, fileName_text = [],
      fileSelected_display = ''none'', drag_over = False,
      statusProcessing_display = ''none'', statusSuccess_display = ''none'',
      statusError_display = ''none'', errorMessage_text = [],
      statusPollInterval = None, currentResultFilename = None,
      processingMessage_text = [],
      downloadLink_href = []\<rparr>"

section \<open>The batch page (part_000)\<close>

text \<open>The key of the poll-interval table, \<^verbatim>\<open>`${docId}_${batchIndex}`\<close>.\<close>

definition pollId :: "string \<Rightarrow> nat \<Rightarrow> string" where
  "pollId docId batchIndex = docId @ ''_'' @ show_nat batchIndex"

text \<open>Besides the globals and the markup, the state lists what the page is waiting for: how
  many calls of \<^verbatim>\<open>processFile\<close> wait for the answer to their upload, and, for every loop of
  \<^verbatim>\<open>processAllBatches\<close> that is running, the call \<^verbatim>\<open>processBatch(docId, batchIndex)\<close> it
  waits on, with the arguments the call was given. The batch index of that call is the
  loop's own counter.\<close>

record bp_state = page +
  currentDocument :: "document option"
  bp_pollIntervals :: "string \<rightharpoonup> handle"
  batchProgress_display :: string
  statusSuccess_html :: string
  modelSelect_value :: string
  uploads_awaited :: nat
  dispatches_awaited :: "(string \<times> nat) list"

text \<open>An async function ends by resolving or by rejecting its promise (an exception that
  nothing caught); the state reached stays either way.\<close>

datatype 'a completion = Completes 'a | Rejects 'a

text \<open>\<^verbatim>\<open>renderBatchProgress()\<close> rewrites the batch list from \<^verbatim>\<open>currentDocument\<close>; of the
  markup only the visibility of the panel is kept in the state.\<close>

definition renderBatchProgress :: "bp_state \<Rightarrow> bp_state" where
  "renderBatchProgress s =
     (case currentDocument s of None \<Rightarrow> s | Some d \<Rightarrow> s\<lparr>batchProgress_display := ''block''\<rparr>)"

text \<open>\<^verbatim>\<open>currentDocument.batches[batchIndex].status = v\<close>. With no current document, or an
  index past the end of the list, the assignment throws a TypeError: the result is None.\<close>

definition set_batch_status :: "nat \<Rightarrow> string \<Rightarrow> bp_state \<Rightarrow> bp_state option" where
  "set_batch_status batchIndex v s =
     (case currentDocument s of
        None \<Rightarrow> None
      | Some d \<Rightarrow>
          if batchIndex < length (batches d)
          then Some (s\<lparr>currentDocument :=
                 Some (d\<lparr>batches := (batches d)[batchIndex := (batches d ! batchIndex)\<lparr>b_status := v\<rparr>]\<rparr>)\<rparr>)
          else None)"

definition showCompletionMessage :: "bp_state \<Rightarrow> bp_state" where
  "showCompletionMessage s =
     s\<lparr>statusSuccess_display := ''flex'',
       statusSuccess_html :=
         ''All batches complete! <a href=\"#\" onclick=\"downloadAll(event)\">Download All</a>''\<rparr>"

text \<open>\<^verbatim>\<open>pollBatchStatus(docId, batchIndex, jobId)\<close> installs the timer; the body of its
  interval callback is \<open>bp_poll_callback\<close>, with the answers to its two requests.\<close>

definition bp_pollBatchStatus :: "string \<Rightarrow> nat \<Rightarrow> string \<Rightarrow> bp_state \<Rightarrow> bp_state" where
  "bp_pollBatchStatus docId batchIndex jobId s =
     (case setInterval (PollBatchStatus docId batchIndex jobId) 500 s of
        (h, s') \<Rightarrow> s'\<lparr>bp_pollIntervals := (bp_pollIntervals s')(pollId docId batchIndex \<mapsto> h)\<rparr>)"

definition bp_poll_callback ::
  "string \<Rightarrow> nat \<Rightarrow> string \<Rightarrow> job_status fetched \<Rightarrow> document list fetched \<Rightarrow> bp_state \<Rightarrow> bp_state" where
  "bp_poll_callback docId batchIndex jobId resp docs_resp s0 =
     (let s = emit (Fetch ''GET'' (status_url jobId)) s0 in
      case resp of
        Throws \<Rightarrow> emit (ConsoleError ''Status poll error:'') s
      | Returns st \<Rightarrow>
          if st_status st = ''complete'' then
            (let s1 = clearInterval (bp_pollIntervals s (pollId docId batchIndex)) s;
                 s2 = emit (Fetch ''GET'' ''/workbench/documents'') s1
             in case docs_resp of
                  Throws \<Rightarrow> emit (ConsoleError ''Status poll error:'') s2
                | Returns docs \<Rightarrow>
                    (case find (\<lambda>d. doc_id d = docId) docs of
                       None \<Rightarrow> s2
                     | Some updatedDoc \<Rightarrow>
                         (let s3 = renderBatchProgress (s2\<lparr>currentDocument := Some updatedDoc\<rparr>) in
                          if list_all (\<lambda>b. b_status b = ''completed'') (batches updatedDoc)
                          then showCompletionMessage (s3\<lparr>processBtn_disabled := False\<rparr>)
                          else s3)))
          else if st_status st = ''error'' then
            (let s1 = clearInterval (bp_pollIntervals s (pollId docId batchIndex)) s in
             case set_batch_status batchIndex ''error'' s1 of
               None \<Rightarrow> emit (ConsoleError ''Status poll error:'') s1
             | Some s2 \<Rightarrow> renderBatchProgress s2)
          else s)"

definition process_batch_url :: "string \<Rightarrow> nat \<Rightarrow> string \<Rightarrow> string" where
  "process_batch_url docId batchIndex model =
     ''/workbench/process-batch/'' @ docId @ ''/'' @ show_nat batchIndex @ ''?model='' @ model"

text \<open>\<^verbatim>\<open>processBatch(docId, batchIndex)\<close> up to its first \<^verbatim>\<open>await\<close>: the model is read, the
  request is sent, and the call waits.\<close>

definition bp_processBatch :: "string \<Rightarrow> nat \<Rightarrow> bp_state \<Rightarrow> bp_state" where
  "bp_processBatch docId batchIndex s =
     (emit (Fetch ''POST'' (process_batch_url docId batchIndex (modelSelect_value s))) s)
       \<lparr>dispatches_awaited := dispatches_awaited s @ [(docId, batchIndex)]\<rparr>"

text \<open>The rest of \<^verbatim>\<open>processBatch\<close>, when the answer has arrived. The assignments go to the
  document that is current then. An exception inside \<^verbatim>\<open>try\<close> runs the \<^verbatim>\<open>catch\<close> block,
  whose own assignment can throw again; then the promise rejects.\<close>

definition bp_processBatch_resume ::
  "string \<Rightarrow> nat \<Rightarrow> dispatch_result fetched \<Rightarrow> bp_state \<Rightarrow> bp_state completion" where
  "bp_processBatch_resume docId batchIndex resp s =
     (let caught = (case set_batch_status batchIndex ''error'' s of
                      None \<Rightarrow> Rejects s
                    | Some s' \<Rightarrow> Completes (renderBatchProgress s'))
      in case resp of
           Throws \<Rightarrow> caught
         | Returns result \<Rightarrow>
             if dr_success result then
               (case set_batch_status batchIndex ''processing'' s of
                  None \<Rightarrow> caught
                | Some s' \<Rightarrow>
                    Completes (bp_pollBatchStatus docId batchIndex (dr_job_id result)
                                 (renderBatchProgress s')))
             else
               (case set_batch_status batchIndex ''error'' s of
                  None \<Rightarrow> caught
                | Some s' \<Rightarrow> Completes (renderBatchProgress s')))"

definition n_batches :: "bp_state \<Rightarrow> nat" where
  "n_batches s = (case currentDocument s of None \<Rightarrow> 0 | Some d \<Rightarrow> length (batches d))"

text \<open>The loop of \<^verbatim>\<open>processAllBatches\<close> from index \<open>i\<close> on, up to its next \<^verbatim>\<open>await\<close>: it
  passes the batches that are not \<^verbatim>\<open>'pending'\<close> and, at the first that is, calls
  \<^verbatim>\<open>processBatch\<close> with the id of the current document and waits; past the last batch it
  ends. The global \<^verbatim>\<open>currentDocument\<close> is read in every round. (Were it null, reading its
  batches would throw and the loop would end.)\<close>

function processAllBatches_from :: "nat \<Rightarrow> bp_state \<Rightarrow> bp_state" where
  "processAllBatches_from i s =
     (case currentDocument s of
        None \<Rightarrow> s
      | Some d \<Rightarrow>
          if i < length (batches d) then
            (if b_status (batches d ! i) = ''pending'' then bp_processBatch (doc_id d) i s
             else processAllBatches_from (Suc i) s)
          else s)"
  by pat_completeness auto
termination
proof (relation "measure (\<lambda>(i, s). n_batches s - i)")
  show "wf (measure (\<lambda>(i, s). n_batches s - i))" by simp
next
  fix i :: nat and s :: bp_state and d
  assume "currentDocument s = Some d" and "i < length (batches d)"
  then show "((Suc i, s), (i, s)) \<in> measure (\<lambda>(i, s). n_batches s - i)"
    by (simp add: n_batches_def)
qed

declare processAllBatches_from.simps [simp del]

definition processAllBatches :: "bp_state \<Rightarrow> bp_state" where
  "processAllBatches s =
     (case currentDocument s of None \<Rightarrow> s | Some d \<Rightarrow> processAllBatches_from 0 s)"

text \<open>The answer to the \<open>n\<close>-th awaited dispatch arrives: \<^verbatim>\<open>processBatch\<close> goes on, and when
  it has resolved, its loop goes on with the next index. When it has rejected, the
  \<^verbatim>\<open>await\<close> in the loop throws and the loop ends.\<close>

definition processAllBatches_resume :: "nat \<Rightarrow> dispatch_result fetched \<Rightarrow> bp_state \<Rightarrow> bp_state" where
  "processAllBatches_resume n resp s =
     (if n < length (dispatches_awaited s) then
        (case dispatches_awaited s ! n of
           (docId, i) \<Rightarrow>
             (case bp_processBatch_resume docId i resp
                     (s\<lparr>dispatches_awaited :=
                          take n (dispatches_awaited s) @ drop (Suc n) (dispatches_awaited s)\<rparr>) of
                Rejects s' \<Rightarrow> s'
              | Completes s' \<Rightarrow> processAllBatches_from (Suc i) s'))
      else s)"

definition bp_fail :: "string \<Rightarrow> bp_state \<Rightarrow> bp_state" where
  "bp_fail msg s =
     (hideStatusMessages s)
       \<lparr>errorMessage_text := msg, statusError_display := ''flex'', processBtn_disabled := False\<rparr>"

text \<open>\<^verbatim>\<open>processFile()\<close> of part_000 up to its first \<^verbatim>\<open>await\<close>: the upload is sent.\<close>

definition bp_processFile :: "bp_state \<Rightarrow> bp_state" where
  "bp_processFile s0 =
     (case selectedFile s0 of
        None \<Rightarrow> s0
      | Some f \<Rightarrow>
          (emit (Fetch ''POST'' ''/workbench/upload'')
             ((hideStatusMessages s0)\<lparr>batchProgress_display := ''none'', processBtn_disabled := True\<rparr>))
            \<lparr>uploads_awaited := Suc (uploads_awaited s0)\<rparr>)"

text \<open>The rest of \<^verbatim>\<open>processFile\<close>, when the answer to an upload has arrived. The call of
  \<^verbatim>\<open>processAllBatches()\<close> is not awaited: it runs to its first \<^verbatim>\<open>await\<close> and
  \<^verbatim>\<open>processFile\<close> is done.\<close>

definition bp_processFile_resume :: "upload_result fetched \<Rightarrow> bp_state \<Rightarrow> bp_state" where
  "bp_processFile_resume resp s0 =
     (if uploads_awaited s0 = 0 then s0
      else
        (let s = s0\<lparr>uploads_awaited := uploads_awaited s0 - 1\<rparr> in
         case resp of
           Throws \<Rightarrow> bp_fail ''Network error occurred'' s
         | Returns result \<Rightarrow>
             if up_success result then
               processAllBatches
                 (renderBatchProgress
                    (s\<lparr>currentDocument :=
                         Some \<lparr>doc_id = up_doc_id result, filename = up_filename result,
                               total_pages = up_total_pages result, batch_size = None,
                               batches = up_batches result\<rparr>\<rparr>))
             else bp_fail (if up_error result \<noteq> [] then up_error result else ''Upload failed'') s))"

text \<open>What can happen on the batch page: the user's gestures, the arrival of an awaited
  answer, and the firing of a running timer.\<close>

datatype bp_event =
    BpFileSelect "js_file list"
  | BpDrop "js_file list"
  | BpDragOver
  | BpDragLeave
  | BpClickProcess
  | BpUploadAnswer "upload_result fetched"
  | BpDispatchAnswer nat "dispatch_result fetched"
  | BpTick handle "job_status fetched" "document list fetched"

fun bp_step :: "bp_event \<Rightarrow> bp_state \<Rightarrow> bp_state" where
  "bp_step (BpFileSelect files) s = handleFileSelect files s"
| "bp_step (BpDrop files) s = handleDrop files s"
| "bp_step BpDragOver s = handleDragOver s"
| "bp_step BpDragLeave s = handleDragLeave s"
| "bp_step BpClickProcess s = (if processBtn_disabled s then s else bp_processFile s)"
| "bp_step (BpUploadAnswer resp) s = bp_processFile_resume resp s"
| "bp_step (BpDispatchAnswer n resp) s = processAllBatches_resume n resp s"
| "bp_step (BpTick h resp docs_resp) s =
     (case timers s h of
        Some (PollBatchStatus docId batchIndex jobId, ms) \<Rightarrow>
          bp_poll_callback docId batchIndex jobId resp docs_resp s
      | _ \<Rightarrow> s)"

fun bp_run :: "bp_event list \<Rightarrow> bp_state \<Rightarrow> bp_state" where
  "bp_run [] s = s"
| "bp_run (e # es) s = bp_run es (bp_step e s)"

definition bp_init :: "bool \<Rightarrow> string \<Rightarrow> bp_state" where
  "bp_init btn model =
     \<lparr>timers = Map.empty, next_handle = 1, trace = [],
      selectedFile = None, processBtn_disabled = btn, fileName_text = [],
      fileSelected_display = ''none'', drag_over = False,
      statusProcessing_display = ''none'', statusSuccess_display = ''none'',
      statusError_display = ''none'', errorMessage_text = [],
      currentDocument = None, bp_pollIntervals = Map.empty,
      batchProgress_display = ''none'', statusSuccess_html = [],
      modelSelect_value = model, uploads_awaited = 0, dispatches_awaited = []\<rparr>"

section \<open>The workbench (static/js/workbench.js)\<close>

record wb_state = browser +
  documents :: "document list"
  wb_pollIntervals :: "string \<rightharpoonup> handle"

text \<open>\<^verbatim>\<open>loadDocuments()\<close>; \<^verbatim>\<open>renderDocuments()\<close> rewrites the markup from the new list.\<close>

definition loadDocuments :: "document list fetched \<Rightarrow> wb_state \<Rightarrow> wb_state" where
  "loadDocuments resp s0 =
     (let s = emit (Fetch ''GET'' ''/workbench/documents'') s0 in
      case resp of
        Throws \<Rightarrow> emit (ConsoleError ''Failed to load documents:'') s
      | Returns docs \<Rightarrow> s\<lparr>documents := docs\<rparr>)"

definition wb_pollBatchStatus :: "string \<Rightarrow> nat \<Rightarrow> string \<Rightarrow> wb_state \<Rightarrow> wb_state" where
  "wb_pollBatchStatus docId batchIndex jobId s =
     (case setInterval (PollBatchStatus docId batchIndex jobId) 500 s of
        (h, s') \<Rightarrow> s'\<lparr>wb_pollIntervals := (wb_pollIntervals s')(pollId docId batchIndex \<mapsto> h)\<rparr>)"

text \<open>The body of the interval callback of \<^verbatim>\<open>pollBatchStatus\<close>. The processing branch
  writes the bar and the text of the batch's progress container, which is markup; but
  \<^verbatim>\<open>doc.batches[batchIndex]\<close> past the end is undefined and reading its \<^verbatim>\<open>start\<close> throws,
  which the callback's own \<^verbatim>\<open>catch\<close> logs. \<^verbatim>\<open>loadDocuments()\<close> catches its own
  exceptions.\<close>

definition wb_poll_callback ::
  "string \<Rightarrow> nat \<Rightarrow> string \<Rightarrow> job_status fetched \<Rightarrow> document list fetched \<Rightarrow> wb_state \<Rightarrow> wb_state" where
  "wb_poll_callback docId batchIndex jobId resp docs_resp s0 =
     (let s = emit (Fetch ''GET'' (status_url jobId)) s0 in
      case resp of
        Throws \<Rightarrow> emit (ConsoleError ''Status poll error:'') s
      | Returns st \<Rightarrow>
          if st_status st = ''processing'' then
            (case find (\<lambda>d. doc_id d = docId) (documents s) of
               None \<Rightarrow> s
             | Some doc \<Rightarrow>
                 if batchIndex < length (batches doc) then s
                 else emit (ConsoleError ''Status poll error:'') s)
          else if st_status st = ''complete'' \<or> st_status st = ''error'' then
            loadDocuments docs_resp (clearInterval (wb_pollIntervals s (pollId docId batchIndex)) s)
          else s)"

definition wb_processBatch ::
  "string \<Rightarrow> nat \<Rightarrow> dispatch_result fetched \<Rightarrow> wb_state \<Rightarrow> wb_state" where
  "wb_processBatch docId batchIndex resp s0 =
     (let s = emit (Fetch ''POST'' (''/workbench/process-batch/'' @ docId @ ''/'' @ show_nat batchIndex)) s0 in
      case resp of
        Throws \<Rightarrow> emit (Alert ''Processing error: '') s
      | Returns result \<Rightarrow>
          if dr_success result then wb_pollBatchStatus docId batchIndex (dr_job_id result) s
          else emit (Alert (''Processing failed: '' @ dr_error result)) s)"

text \<open>\<^verbatim>\<open>uploadDocument(event)\<close>; \<open>chosen\<close> says whether the file input holds a file.\<close>

definition uploadDocument ::
  "bool \<Rightarrow> upload_result fetched \<Rightarrow> document list fetched \<Rightarrow> wb_state \<Rightarrow> wb_state" where
  "uploadDocument chosen resp docs_resp s0 =
     (if \<not> chosen then s0
      else
        (let s = emit (Fetch ''POST'' ''/workbench/upload'') s0 in
         case resp of
           Throws \<Rightarrow> emit (Alert ''Upload error: '') s
         | Returns result \<Rightarrow>
             if up_success result then loadDocuments docs_resp s
             else emit (Alert (''Upload failed: '' @ up_error result)) s))"

text \<open>\<^verbatim>\<open>renderBatch\<close> writes the Process button of a batch only while the batch, as last
  loaded, is \<^verbatim>\<open>'pending'\<close>; a click on it calls \<^verbatim>\<open>processBatch(docId, index)\<close>.\<close>

definition process_button_shown :: "string \<Rightarrow> nat \<Rightarrow> wb_state \<Rightarrow> bool" where
  "process_button_shown docId index s =
     list_ex (\<lambda>d. doc_id d = docId \<and> index < length (batches d)
                   \<and> b_status (batches d ! index) = ''pending'') (documents s)"

datatype wb_event =
    WbUpload bool "upload_result fetched" "document list fetched"
  | WbClickProcess string nat "dispatch_result fetched"
  | WbTick handle "job_status fetched" "document list fetched"

fun wb_step :: "wb_event \<Rightarrow> wb_state \<Rightarrow> wb_state" where
  "wb_step (WbUpload chosen resp docs_resp) s = uploadDocument chosen resp docs_resp s"
| "wb_step (WbClickProcess docId batchIndex resp) s =
     (if process_button_shown docId batchIndex s then wb_processBatch docId batchIndex resp s else s)"
| "wb_step (WbTick h resp docs_resp) s =
     (case timers s h of
        Some (LoadDocuments, ms) \<Rightarrow> loadDocuments docs_resp s
      | Some (PollBatchStatus docId batchIndex jobId, ms) \<Rightarrow>
          wb_poll_callback docId batchIndex jobId resp docs_resp s
      | _ \<Rightarrow> s)"

fun wb_run :: "wb_event list \<Rightarrow> wb_state \<Rightarrow> wb_state" where
  "wb_run [] s = s"
| "wb_run (e # es) s = wb_run es (wb_step e s)"

text \<open>The page after \<^verbatim>\<open>DOMContentLoaded\<close>: the documents are loaded once and the refresh
  timer of five seconds is running.\<close>

definition wb_init :: "document list fetched \<Rightarrow> wb_state" where
  "wb_init docs_resp =
     snd (setInterval LoadDocuments 5000
            (loadDocuments docs_resp
               \<lparr>timers = Map.empty, next_handle = 1, trace = [],
                documents = [], wb_pollIntervals = Map.empty\<rparr>))"

section \<open>Predicates used to state the properties\<close>



definition with_status :: "nat \<Rightarrow> string \<Rightarrow> document \<Rightarrow> document" where
  "with_status i v d = d\<lparr>batches := (batches d)[i := (batches d ! i)\<lparr>b_status := v\<rparr>]\<rparr>"

text \<open>Whether a file list offers a PDF to the selection handlers: they look at its first file.\<close>

definition pdf_first :: "js_file list \<Rightarrow> bool" where
  "pdf_first files = (case files of [] \<Rightarrow> False | f # _ \<Rightarrow> f_type f = ''application/pdf'')"

fun sp_offers_pdf :: "sp_event \<Rightarrow> bool" where
  "sp_offers_pdf (SpFileSelect files) = pdf_first files"
| "sp_offers_pdf (SpDrop files) = pdf_first files"
| "sp_offers_pdf e = False"

fun bp_offers_pdf :: "bp_event \<Rightarrow> bool" where
  "bp_offers_pdf (BpFileSelect files) = pdf_first files"
| "bp_offers_pdf (BpDrop files) = pdf_first files"
| "bp_offers_pdf e = False"

text \<open>A page on which nothing has been selected, sent or started, with the process button in
  the state \<open>btn\<close>.\<close>

definition idle :: "bool \<Rightarrow> 'a page_scheme \<Rightarrow> bool" where
  "idle btn s \<longleftrightarrow>
     selectedFile s = None \<and> processBtn_disabled s = btn \<and> trace s = [] \<and> timers s = Map.empty"

text \<open>Handles come from the counter: every running timer and every stored handle is below it,
  and no handle is stored under two keys.\<close>

definition wb_inv :: "wb_state \<Rightarrow> bool" where
  "wb_inv s \<longleftrightarrow>
     (\<forall>h. timers s h \<noteq> None \<longrightarrow> h < next_handle s)
     \<and> (\<forall>k h. wb_pollIntervals s k = Some h \<longrightarrow> h < next_handle s)
     \<and> (\<forall>k k' h. wb_pollIntervals s k = Some h \<and> wb_pollIntervals s k' = Some h \<longrightarrow> k = k')"

section \<open>Auxiliary facts\<close>

lemma timers_emit [simp]: "timers (emit e s) = timers s"
  by (simp add: emit_def)

lemma trace_emit [simp]: "trace (emit e s) = trace s @ [e]"
  by (simp add: emit_def)

lemma next_handle_emit [simp]: "next_handle (emit e s) = next_handle s"
  by (simp add: emit_def)

lemma trace_clearInterval [simp]: "trace (clearInterval h s) = trace s"
  by (simp add: clearInterval_def split: option.splits)

lemma next_handle_clearInterval [simp]: "next_handle (clearInterval h s) = next_handle s"
  by (simp add: clearInterval_def split: option.splits)

lemma timers_clearInterval:
  "timers (clearInterval h s) k = (if h = Some k then None else timers s k)"
  by (auto simp: clearInterval_def split: option.splits)

lemma timers_handleFileSelect [simp]: "timers (handleFileSelect files s) = timers s"
  by (simp add: handleFileSelect_def showSelectedFile_def split: list.splits)

lemma timers_handleDrop [simp]: "timers (handleDrop files s) = timers s"
  by (simp add: handleDrop_def showSelectedFile_def Let_def split: list.splits)

lemma timers_handleDragOver [simp]: "timers (handleDragOver s) = timers s"
  by (simp add: handleDragOver_def)

lemma timers_handleDragLeave [simp]: "timers (handleDragLeave s) = timers s"
  by (simp add: handleDragLeave_def)

lemma pollStatus_Throws:
  "pollStatus jobId Throws s =
     s\<lparr>trace := trace s @ [Fetch ''GET'' (status_url jobId), ConsoleError ''Status poll error:'']\<rparr>"
  by (simp add: pollStatus_def emit_def)

lemma pollStatus_queries:
  "\<exists>es. trace (pollStatus jobId r s) = trace s @ Fetch ''GET'' (status_url jobId) # es"
  by (cases r)
     (simp_all add: pollStatus_def Let_def hideStatusMessages_def)

lemma pollStatus_stops:
  assumes "timers s h \<noteq> None" and "timers (pollStatus jobId r s) h = None"
  shows "\<exists>st. r = Returns st \<and> (st_status st = ''complete'' \<or> st_status st = ''error'')"
proof (cases r)
  case Throws
  with assms show ?thesis by (simp add: pollStatus_def)
next
  case (Returns st)
  with assms show ?thesis
    by (auto simp: pollStatus_def Let_def split: if_splits)
qed

lemma sp_processFile_keeps_running:
  "timers s h \<noteq> None \<Longrightarrow> timers (sp_processFile r s) h \<noteq> None"
  by (cases r)
     (auto simp: sp_processFile_def sp_fail_def hideStatusMessages_def setInterval_def emit_def Let_def
           split: option.splits)

lemma sp_step_stops:
  assumes "timers s h \<noteq> None" and "timers (sp_step e s) h = None"
  shows "\<exists>k st. e = SpTick k (Returns st) \<and> (st_status st = ''complete'' \<or> st_status st = ''error'')"
proof (cases e)
  case (SpTick k r)
  show ?thesis
  proof (cases "timers s k")
    case None
    with assms SpTick show ?thesis by simp
  next
    case (Some cb)
    obtain c ms where cb: "cb = (c, ms)" by (cases cb)
    show ?thesis
    proof (cases c)
      case (PollStatus jobId)
      with assms SpTick Some cb have "timers (pollStatus jobId r s) h = None" by simp
      from pollStatus_stops [OF assms(1) this] SpTick show ?thesis by blast
    qed (use assms SpTick Some cb in simp_all)
  qed
next
  case (SpClickProcess r)
  with assms sp_processFile_keeps_running [of s h r] show ?thesis by (simp split: if_splits)
qed (use assms in simp_all)

lemma timers_loadDocuments [simp]: "timers (loadDocuments r s) = timers s"
  by (cases r) (simp_all add: loadDocuments_def)

lemma next_handle_loadDocuments [simp]: "next_handle (loadDocuments r s) = next_handle s"
  by (cases r) (simp_all add: loadDocuments_def)

lemma wb_pollIntervals_loadDocuments [simp]:
  "wb_pollIntervals (loadDocuments r s) = wb_pollIntervals s"
  by (cases r) (simp_all add: loadDocuments_def emit_def)

lemma wb_pollIntervals_emit [simp]: "wb_pollIntervals (emit e s) = wb_pollIntervals s"
  by (simp add: emit_def)

lemma wb_pollIntervals_clearInterval [simp]:
  "wb_pollIntervals (clearInterval h s) = wb_pollIntervals s"
  by (simp add: clearInterval_def split: option.splits)

lemma documents_emit [simp]: "documents (emit e s) = documents s"
  by (simp add: emit_def)

lemma loadDocuments_queries:
  "\<exists>es. trace (loadDocuments r s) = trace s @ Fetch ''GET'' ''/workbench/documents'' # es"
  by (cases r) (simp_all add: loadDocuments_def)

text \<open>What a callback of the workbench's poller does to the timers, by the answer it got.\<close>

lemma timers_wb_poll_callback:
  "timers (wb_poll_callback d i j r dr s) h =
     (case r of
        Throws \<Rightarrow> timers s h
      | Returns st \<Rightarrow>
          if (st_status st = ''complete'' \<or> st_status st = ''error'')
             \<and> wb_pollIntervals s (pollId d i) = Some h
          then None else timers s h)"
  by (cases r)
     (auto simp: wb_poll_callback_def Let_def timers_clearInterval
           split: option.splits)

lemma wb_pollIntervals_wb_poll_callback [simp]:
  "wb_pollIntervals (wb_poll_callback d i j r dr s) = wb_pollIntervals s"
  by (cases r) (auto simp: wb_poll_callback_def Let_def split: option.splits)

lemma next_handle_wb_poll_callback [simp]:
  "next_handle (wb_poll_callback d i j r dr s) = next_handle s"
  by (cases r) (auto simp: wb_poll_callback_def Let_def split: option.splits)

lemma wb_poll_callback_Throws:
  "wb_poll_callback d i j Throws dr s =
     s\<lparr>trace := trace s @ [Fetch ''GET'' (status_url j), ConsoleError ''Status poll error:'']\<rparr>"
  by (simp add: wb_poll_callback_def emit_def)

lemma wb_poll_callback_queries:
  "\<exists>es. trace (wb_poll_callback d i j r dr s) = trace s @ Fetch ''GET'' (status_url j) # es"
proof (cases r)
  case Throws
  then show ?thesis by (simp add: wb_poll_callback_Throws)
next
  case (Returns st)
  obtain es where "trace (loadDocuments dr (clearInterval (wb_pollIntervals s (pollId d i))
                      (emit (Fetch ''GET'' (status_url j)) s)))
                   = (trace s @ [Fetch ''GET'' (status_url j)]) @ Fetch ''GET'' ''/workbench/documents'' # es"
    using loadDocuments_queries [of dr "clearInterval (wb_pollIntervals s (pollId d i))
                      (emit (Fetch ''GET'' (status_url j)) s)"] by auto
  with Returns show ?thesis
    by (auto simp: wb_poll_callback_def Let_def split: option.splits)
qed

lemma timers_wb_pollBatchStatus:
  "timers (wb_pollBatchStatus d i j s) h =
     (if h = next_handle s then Some (PollBatchStatus d i j, 500) else timers s h)"
  by (simp add: wb_pollBatchStatus_def setInterval_def)

lemma wb_pollIntervals_wb_pollBatchStatus:
  "wb_pollIntervals (wb_pollBatchStatus d i j s) k =
     (if k = pollId d i then Some (next_handle s) else wb_pollIntervals s k)"
  by (simp add: wb_pollBatchStatus_def setInterval_def)

lemma next_handle_wb_pollBatchStatus [simp]:
  "next_handle (wb_pollBatchStatus d i j s) = Suc (next_handle s)"
  by (simp add: wb_pollBatchStatus_def setInterval_def)

lemma wb_processBatch_keeps_running:
  "timers s h \<noteq> None \<Longrightarrow> timers (wb_processBatch d i r s) h \<noteq> None"
  by (cases r) (simp_all add: wb_processBatch_def Let_def timers_wb_pollBatchStatus)

lemma timers_uploadDocument [simp]: "timers (uploadDocument c r dr s) = timers s"
  by (cases r) (simp_all add: uploadDocument_def Let_def)

lemma wb_step_stops:
  assumes "timers s h \<noteq> None" and "timers (wb_step e s) h = None"
  shows "\<exists>k st dr. e = WbTick k (Returns st) dr
           \<and> (st_status st = ''complete'' \<or> st_status st = ''error'')"
proof (cases e)
  case (WbTick k r dr)
  show ?thesis
  proof (cases "timers s k")
    case None
    with assms WbTick show ?thesis by simp
  next
    case (Some cb)
    obtain c ms where cb: "cb = (c, ms)" by (cases cb)
    show ?thesis
    proof (cases c)
      case (PollBatchStatus d i j)
      with assms WbTick Some cb have "timers (wb_poll_callback d i j r dr s) h = None" by simp
      with assms(1) WbTick show ?thesis
        by (cases r) (auto simp: timers_wb_poll_callback split: if_splits)
    qed (use assms WbTick Some cb in simp_all)
  qed
next
  case (WbClickProcess d i r)
  with assms wb_processBatch_keeps_running [of s h d i r] show ?thesis by (simp split: if_splits)
qed (use assms in simp_all)

lemma of_char_digit_char:
  assumes "d < 10"
  shows "(of_char (digit_char d) :: nat) = 48 + d"
proof -
  have "(of_char (digit_char d) :: nat) = (48 + d) mod 256"
    unfolding digit_char_def by (rule of_char_of)
  also have "\<dots> = 48 + d" using assms by (intro mod_less) linarith
  finally show ?thesis .
qed

lemma digit_char_inj:
  assumes "a < 10" and "b < 10" and eq: "digit_char a = digit_char b"
  shows "a = b"
proof -
  have "48 + a = (of_char (digit_char a) :: nat)" using assms(1) by (rule of_char_digit_char [symmetric])
  also have "\<dots> = of_char (digit_char b)" by (simp only: eq)
  also have "\<dots> = 48 + b" using assms(2) by (rule of_char_digit_char)
  finally show ?thesis by simp
qed

lemma digit_char_not_underscore: "d < 10 \<Longrightarrow> digit_char d \<noteq> CHR ''_''"
proof
  assume d: "d < 10" and eq: "digit_char d = CHR ''_''"
  have "(of_char (digit_char d) :: nat) = 95" by (simp add: eq)
  with of_char_digit_char [OF d] d show False by simp
qed

lemma show_nat_not_Nil: "show_nat n \<noteq> []"
  by (subst show_nat.simps) simp

lemma underscore_notin_show_nat: "CHR ''_'' \<notin> set (show_nat n)"
proof (induction n rule: show_nat.induct)
  case (1 n)
  show ?case
  proof (cases "n < 10")
    case True
    then show ?thesis
      using digit_char_not_underscore [of n] by (subst show_nat.simps) auto
  next
    case False
    have "n mod 10 < 10" by simp
    from digit_char_not_underscore [OF this] 1 False show ?thesis
      by (subst show_nat.simps) auto
  qed
qed

lemma show_nat_inj: "show_nat n = show_nat m \<Longrightarrow> n = m"
proof (induction n arbitrary: m rule: show_nat.induct)
  case (1 n)
  show ?case
  proof (cases "n < 10")
    case n: True
    show ?thesis
    proof (cases "m < 10")
      case True
      with n 1(2) show ?thesis
        by (simp add: show_nat.simps [of n] show_nat.simps [of m] digit_char_inj)
    next
      case False
      with n 1(2) show_nat_not_Nil [of "m div 10"] show ?thesis
        by (simp add: show_nat.simps [of n] show_nat.simps [of m])
    qed
  next
    case n: False
    show ?thesis
    proof (cases "m < 10")
      case True
      with n 1(2) show_nat_not_Nil [of "n div 10"] show ?thesis
        by (simp add: show_nat.simps [of n] show_nat.simps [of m])
    next
      case False
      with n 1(2) have eq: "show_nat (n div 10) = show_nat (m div 10)"
        and dg: "digit_char (n mod 10) = digit_char (m mod 10)"
        by (simp_all add: show_nat.simps [of n] show_nat.simps [of m])
      from 1(1) [OF n eq] have "n div 10 = m div 10" .
      moreover from dg have "n mod 10 = m mod 10" by (rule digit_char_inj [rotated 2]) simp_all
      ultimately show ?thesis by (metis div_mult_mod_eq)
    qed
  qed
qed

lemma append_sep_eq:
  assumes "x \<notin> set xs" and "x \<notin> set xs'" and "xs @ x # ys = xs' @ x # ys'"
  shows "xs = xs' \<and> ys = ys'"
  using assms
proof (induction xs arbitrary: xs')
  case Nil
  then show ?case by (cases xs') auto
next
  case (Cons a xs)
  then show ?case by (cases xs') auto
qed

lemma pollId_inj: "pollId d i = pollId d' i' \<longleftrightarrow> d = d' \<and> i = i'"
proof
  assume "pollId d i = pollId d' i'"
  then have "rev (show_nat i) @ CHR ''_'' # rev d = rev (show_nat i') @ CHR ''_'' # rev d'"
    by (simp add: pollId_def) (metis rev_append rev.simps(2) append_Cons append_Nil append_assoc)
  then have "rev (show_nat i) = rev (show_nat i') \<and> rev d = rev d'"
    using append_sep_eq [of "CHR ''_''" "rev (show_nat i)" "rev (show_nat i')" "rev d" "rev d'"]
      underscore_notin_show_nat by simp
  then show "d = d' \<and> i = i'" using show_nat_inj by simp
qed simp

lemma wb_inv_init: "wb_inv (wb_init r)"
  by (simp add: wb_inv_def wb_init_def setInterval_def)

lemma wb_inv_frame:
  assumes "wb_inv s" and "wb_pollIntervals s' = wb_pollIntervals s"
    and "next_handle s' = next_handle s" and "\<And>h. timers s' h \<noteq> None \<Longrightarrow> timers s h \<noteq> None"
  shows "wb_inv s'"
  using assms unfolding wb_inv_def by metis

lemma wb_inv_loadDocuments: "wb_inv s \<Longrightarrow> wb_inv (loadDocuments r s)"
  by (rule wb_inv_frame) simp_all

lemma wb_inv_emit: "wb_inv s \<Longrightarrow> wb_inv (emit e s)"
  by (rule wb_inv_frame) simp_all

lemma wb_inv_wb_poll_callback: "wb_inv s \<Longrightarrow> wb_inv (wb_poll_callback d i j r dr s)"
  by (rule wb_inv_frame) (auto simp: timers_wb_poll_callback split: fetched.splits if_splits)

lemma wb_inv_wb_pollBatchStatus:
  assumes "wb_inv s"
  shows "wb_inv (wb_pollBatchStatus d i j s)"
  unfolding wb_inv_def
proof (intro conjI allI impI)
  fix h assume "timers (wb_pollBatchStatus d i j s) h \<noteq> None"
  then show "h < next_handle (wb_pollBatchStatus d i j s)"
    using assms by (auto simp: wb_inv_def timers_wb_pollBatchStatus less_Suc_eq split: if_splits)
next
  fix k h assume "wb_pollIntervals (wb_pollBatchStatus d i j s) k = Some h"
  then show "h < next_handle (wb_pollBatchStatus d i j s)"
    using assms by (auto simp: wb_inv_def wb_pollIntervals_wb_pollBatchStatus less_Suc_eq split: if_splits)
next
  fix k k' h
  assume "wb_pollIntervals (wb_pollBatchStatus d i j s) k = Some h
          \<and> wb_pollIntervals (wb_pollBatchStatus d i j s) k' = Some h"
  moreover have "wb_pollIntervals s q \<noteq> Some (next_handle s)" for q
    using assms unfolding wb_inv_def by (metis less_irrefl)
  ultimately show "k = k'"
    using assms unfolding wb_inv_def wb_pollIntervals_wb_pollBatchStatus
    by (metis option.inject)
qed

lemma wb_inv_step: "wb_inv s \<Longrightarrow> wb_inv (wb_step e s)"
proof (cases e)
  case (WbUpload c r dr)
  assume "wb_inv s"
  then show ?thesis using WbUpload
    by (cases r) (simp_all add: uploadDocument_def Let_def wb_inv_emit wb_inv_loadDocuments)
next
  case (WbClickProcess d i r)
  assume "wb_inv s"
  then show ?thesis using WbClickProcess
    by (cases r) (simp_all add: wb_processBatch_def Let_def wb_inv_emit wb_inv_wb_pollBatchStatus)
next
  case (WbTick h r dr)
  assume "wb_inv s"
  then show ?thesis using WbTick
    by (auto simp: wb_inv_loadDocuments wb_inv_wb_poll_callback split: option.splits callback.splits)
qed

lemma wb_inv_run: "wb_inv s \<Longrightarrow> wb_inv (wb_run es s)"
  by (induction es arbitrary: s) (simp_all add: wb_inv_step)

lemma bp_fields_emit [simp]:
  "currentDocument (emit e s) = currentDocument s"
  "bp_pollIntervals (emit e s) = bp_pollIntervals s"
  "modelSelect_value (emit e s) = modelSelect_value s"
  "processBtn_disabled (emit e s) = processBtn_disabled s"
  "statusSuccess_display (emit e s) = statusSuccess_display s"
  "statusSuccess_html (emit e s) = statusSuccess_html s"
  "selectedFile (emit e s) = selectedFile s"
  by (simp_all add: emit_def)

lemma bp_fields_clearInterval [simp]:
  "currentDocument (clearInterval h s) = currentDocument s"
  "bp_pollIntervals (clearInterval h s) = bp_pollIntervals s"
  "modelSelect_value (clearInterval h s) = modelSelect_value s"
  "processBtn_disabled (clearInterval h s) = processBtn_disabled s"
  "statusSuccess_display (clearInterval h s) = statusSuccess_display s"
  "statusSuccess_html (clearInterval h s) = statusSuccess_html s"
  "selectedFile (clearInterval h s) = selectedFile s"
  by (simp_all add: clearInterval_def split: option.splits)

lemma set_batch_status_Some:
  "currentDocument s = Some d \<Longrightarrow> i < length (batches d)
   \<Longrightarrow> set_batch_status i v s = Some (s\<lparr>currentDocument := Some (with_status i v d)\<rparr>)"
  by (simp add: set_batch_status_def with_status_def)

lemma renderBatchProgress_Some:
  "currentDocument s = Some d \<Longrightarrow> renderBatchProgress s = s\<lparr>batchProgress_display := ''block''\<rparr>"
  by (simp add: renderBatchProgress_def)

lemma length_with_status [simp]: "length (batches (with_status i v d)) = length (batches d)"
  by (simp add: with_status_def)

lemma doc_id_with_status [simp]: "doc_id (with_status i v d) = doc_id d"
  by (simp add: with_status_def)

lemma nth_with_status:
  "k < length (batches d) \<Longrightarrow>
   batches (with_status i v d) ! k = (if k = i then (batches d ! k)\<lparr>b_status := v\<rparr> else batches d ! k)"
  by (simp add: with_status_def nth_list_update)

lemma bp_fields_page_updates [simp]:
  "uploads_awaited (emit e s) = uploads_awaited s"
  "dispatches_awaited (emit e s) = dispatches_awaited s"
  "uploads_awaited (clearInterval h s) = uploads_awaited s"
  "dispatches_awaited (clearInterval h s) = dispatches_awaited s"
  by (simp_all add: emit_def clearInterval_def split: option.splits)



text \<open>The loop up to its next \<^verbatim>\<open>await\<close>: either the state is as it was (no pending batch from
  \<open>i\<close> on), or the first pending batch from \<open>i\<close> on has been dispatched under the id of the
  current document.\<close>

lemma processAllBatches_from_cases:
  "processAllBatches_from i s = s
   \<or> (\<exists>d k. currentDocument s = Some d \<and> i \<le> k \<and> k < length (batches d)
          \<and> b_status (batches d ! k) = ''pending''
          \<and> (\<forall>m. i \<le> m \<and> m < k \<longrightarrow> b_status (batches d ! m) \<noteq> ''pending'')
          \<and> processAllBatches_from i s = bp_processBatch (doc_id d) k s)"
proof (induction i s rule: processAllBatches_from.induct)
  case (1 i s)
  show ?case
  proof (cases "currentDocument s")
    case None
    then show ?thesis by (subst processAllBatches_from.simps) simp
  next
    case (Some d)
    show ?thesis
    proof (cases "i < length (batches d)")
      case False
      with Some show ?thesis by (subst processAllBatches_from.simps) simp
    next
      case True
      show ?thesis
      proof (cases "b_status (batches d ! i) = ''pending''")
        case pending: True
        have "processAllBatches_from i s = bp_processBatch (doc_id d) i s"
          using Some True pending by (subst processAllBatches_from.simps) simp
        with Some True pending show ?thesis by auto
      next
        case other: False
        have eq: "processAllBatches_from i s = processAllBatches_from (Suc i) s"
          using Some True other by (subst processAllBatches_from.simps) simp
        from "1.IH" [OF Some True other] show ?thesis
        proof
          assume "processAllBatches_from (Suc i) s = s"
          with eq show ?thesis by simp
        next
          assume "\<exists>d k. currentDocument s = Some d \<and> Suc i \<le> k \<and> k < length (batches d)
                    \<and> b_status (batches d ! k) = ''pending''
                    \<and> (\<forall>m. Suc i \<le> m \<and> m < k \<longrightarrow> b_status (batches d ! m) \<noteq> ''pending'')
                    \<and> processAllBatches_from (Suc i) s = bp_processBatch (doc_id d) k s"
          then obtain d' k where k: "currentDocument s = Some d'" "Suc i \<le> k" "k < length (batches d')"
            "b_status (batches d' ! k) = ''pending''"
            "\<forall>m. Suc i \<le> m \<and> m < k \<longrightarrow> b_status (batches d' ! m) \<noteq> ''pending''"
            "processAllBatches_from (Suc i) s = bp_processBatch (doc_id d') k s"
            by blast
          from k(1) Some have dd: "d' = d" by simp
          have "\<forall>m. i \<le> m \<and> m < k \<longrightarrow> b_status (batches d ! m) \<noteq> ''pending''"
          proof (intro allI impI)
            fix m assume m: "i \<le> m \<and> m < k"
            show "b_status (batches d ! m) \<noteq> ''pending''"
            proof (cases "m = i")
              case True
              with other show ?thesis by simp
            next
              case False
              with m have "Suc i \<le> m \<and> m < k" by simp
              with k(5) dd show ?thesis by blast
            qed
          qed
          moreover have "i \<le> k" using k(2) by simp
          ultimately have "currentDocument s = Some d \<and> i \<le> k \<and> k < length (batches d)
              \<and> b_status (batches d ! k) = ''pending''
              \<and> (\<forall>m. i \<le> m \<and> m < k \<longrightarrow> b_status (batches d ! m) \<noteq> ''pending'')
              \<and> processAllBatches_from i s = bp_processBatch (doc_id d) k s"
            using k dd eq Some by simp
          then show ?thesis by blast
        qed
      qed
    qed
  qed
qed

lemma currentDocument_bp_processBatch [simp]:
  "currentDocument (bp_processBatch docId k s) = currentDocument s"
  by (simp add: bp_processBatch_def)

lemma currentDocument_processAllBatches_from [simp]:
  "currentDocument (processAllBatches_from i s) = currentDocument s"
  using processAllBatches_from_cases [of i s] by auto

text \<open>The three branches of the batch page's poll callback.\<close>

lemma bp_poll_callback_error:
  assumes "st_status st = ''error''" and "currentDocument s = Some d" and "i < length (batches d)"
  shows "bp_poll_callback docId i j (Returns st) dr s =
           (clearInterval (bp_pollIntervals s (pollId docId i)) (emit (Fetch ''GET'' (status_url j)) s))
             \<lparr>currentDocument := Some (with_status i ''error'' d), batchProgress_display := ''block''\<rparr>"
proof -
  let ?s1 = "clearInterval (bp_pollIntervals s (pollId docId i)) (emit (Fetch ''GET'' (status_url j)) s)"
  have "currentDocument ?s1 = Some d" using assms(2) by simp
  from set_batch_status_Some [OF this assms(3), of "''error''"] assms(1) show ?thesis
    by (simp add: bp_poll_callback_def Let_def renderBatchProgress_def)
qed

lemma bp_poll_callback_complete_found:
  assumes "st_status st = ''complete''" and "find (\<lambda>d. doc_id d = docId) docs = Some u"
  shows "bp_poll_callback docId i j (Returns st) (Returns docs) s =
           (let s3 = (emit (Fetch ''GET'' ''/workbench/documents'')
                       (clearInterval (bp_pollIntervals s (pollId docId i))
                          (emit (Fetch ''GET'' (status_url j)) s)))
                     \<lparr>currentDocument := Some u, batchProgress_display := ''block''\<rparr>
            in if list_all (\<lambda>b. b_status b = ''completed'') (batches u)
               then showCompletionMessage (s3\<lparr>processBtn_disabled := False\<rparr>) else s3)"
  using assms by (simp add: bp_poll_callback_def Let_def renderBatchProgress_def)

lemma trace_bp_poll_callback:
  "trace (bp_poll_callback docId i j r dr s) =
     trace s @ Fetch ''GET'' (status_url j) #
       (case r of
          Throws \<Rightarrow> [ConsoleError ''Status poll error:'']
        | Returns st \<Rightarrow>
            if st_status st = ''complete'' then
              Fetch ''GET'' ''/workbench/documents'' #
                (case dr of Throws \<Rightarrow> [ConsoleError ''Status poll error:''] | Returns docs \<Rightarrow> [])
            else if st_status st = ''error'' then
              (case set_batch_status i ''error'' (clearInterval (bp_pollIntervals s (pollId docId i))
                                                    (emit (Fetch ''GET'' (status_url j)) s)) of
                 None \<Rightarrow> [ConsoleError ''Status poll error:''] | Some s2 \<Rightarrow> [])
            else [])"
  by (auto simp: bp_poll_callback_def Let_def renderBatchProgress_def showCompletionMessage_def
        set_batch_status_def
      split: fetched.splits option.splits)

lemma timers_bp_poll_callback:
  "timers (bp_poll_callback docId i j r dr s) h =
     (case r of
        Throws \<Rightarrow> timers s h
      | Returns st \<Rightarrow>
          if (st_status st = ''complete'' \<or> st_status st = ''error'')
             \<and> bp_pollIntervals s (pollId docId i) = Some h
          then None else timers s h)"
  by (auto simp: bp_poll_callback_def Let_def renderBatchProgress_def showCompletionMessage_def
        set_batch_status_def timers_clearInterval
      split: fetched.splits option.splits)

lemma currentDocument_bp_poll_callback_complete:
  assumes "st_status st = ''complete''"
  shows "currentDocument (bp_poll_callback docId i j (Returns st) dr s) =
           (case dr of
              Throws \<Rightarrow> currentDocument s
            | Returns docs \<Rightarrow>
                (case find (\<lambda>d. doc_id d = docId) docs of
                   None \<Rightarrow> currentDocument s | Some u \<Rightarrow> Some u))"
  using assms
  by (auto simp: bp_poll_callback_def Let_def renderBatchProgress_def showCompletionMessage_def
      split: fetched.splits option.splits)

lemma trace_loadDocuments:
  "trace (loadDocuments r s) =
     trace s @ Fetch ''GET'' ''/workbench/documents'' #
       (case r of Throws \<Rightarrow> [ConsoleError ''Failed to load documents:''] | Returns docs \<Rightarrow> [])"
  by (cases r) (simp_all add: loadDocuments_def)

lemma documents_loadDocuments:
  "documents (loadDocuments r s) = (case r of Throws \<Rightarrow> documents s | Returns docs \<Rightarrow> docs)"
  by (cases r) (simp_all add: loadDocuments_def)

lemma documents_clearInterval [simp]: "documents (clearInterval h s) = documents s"
  by (simp add: clearInterval_def split: option.splits)

lemma wb_poll_callback_terminal:
  "st_status st = ''complete'' \<or> st_status st = ''error'' \<Longrightarrow>
   wb_poll_callback d i j (Returns st) dr s =
     loadDocuments dr (clearInterval (wb_pollIntervals s (pollId d i)) (emit (Fetch ''GET'' (status_url j)) s))"
  by (auto simp: wb_poll_callback_def Let_def)

lemma currentDocument_page_handlers [simp]:
  "currentDocument (handleFileSelect files s) = currentDocument s"
  "currentDocument (handleDrop files s) = currentDocument s"
  "currentDocument (handleDragOver s) = currentDocument s"
  "currentDocument (handleDragLeave s) = currentDocument s"
  "currentDocument (hideStatusMessages s) = currentDocument s"
  by (simp_all add: handleFileSelect_def handleDrop_def handleDragOver_def handleDragLeave_def
        showSelectedFile_def hideStatusMessages_def Let_def split: list.splits)

lemma currentDocument_bp_processFile [simp]: "currentDocument (bp_processFile s) = currentDocument s"
  by (simp add: bp_processFile_def split: option.splits)

lemma currentDocument_bp_fail [simp]: "currentDocument (bp_fail msg s) = currentDocument s"
  by (simp add: bp_fail_def)

lemma currentDocument_renderBatchProgress [simp]:
  "currentDocument (renderBatchProgress s) = currentDocument s"
  by (simp add: renderBatchProgress_def split: option.splits)

lemma currentDocument_processAllBatches [simp]:
  "currentDocument (processAllBatches s) = currentDocument s"
  by (simp add: processAllBatches_def split: option.splits)



section \<open>The properties\<close>

subsection \<open>A timer whose handle was overwritten\<close>

text \<open>
  Claim C1 says that every poller stops at the first terminal status it observes and sends no
  status request after it. The timers are started with a period of 500 ms, and a poller whose
  handle is still the one stored for it does stop. But the handle is stored per batch
  (workbench) or in one global (whole-document page), and a second dispatch overwrites it.
  Below, on the workbench, the Process button of a pending batch is clicked twice before the
  documents are reloaded; on the whole-document page, a second PDF is chosen while the first is
  processed (which enables the button again) and processed too. When the first job is then
  observed \<^verbatim>\<open>'complete'\<close>, its callback clears the handle of the second timer: the first
  timer (handle 2, resp. 1) keeps running and its next firing sends the status request of the
  finished job again.
\<close>

theorem overwritten_handle_keeps_polling:
  "timers (wb_run
       [WbClickProcess ''d'' 0 (Returns \<lparr>dr_success = True, dr_job_id = ''j1'', dr_error = []\<rparr>),
        WbClickProcess ''d'' 0 (Returns \<lparr>dr_success = True, dr_job_id = ''j2'', dr_error = []\<rparr>),
        WbTick 2 (Returns \<lparr>st_status = ''complete'', st_current_page = 3, st_total_pages = 3,
                            st_message = ''done'', st_filename = ''a.md''\<rparr>) Throws]
       (wb_init (Returns [\<lparr>doc_id = ''d'', filename = ''a.pdf'', total_pages = 3, batch_size = Some 3,
            batches = [\<lparr>b_start = 1, b_end = 3, b_status = ''pending'', b_job_id = None,
                        b_result_file = None\<rparr>]\<rparr>]))) 2
     = Some (PollBatchStatus ''d'' 0 ''j1'', 500)
   \<and> timers (wb_run
       [WbClickProcess ''d'' 0 (Returns \<lparr>dr_success = True, dr_job_id = ''j1'', dr_error = []\<rparr>),
        WbClickProcess ''d'' 0 (Returns \<lparr>dr_success = True, dr_job_id = ''j2'', dr_error = []\<rparr>),
        WbTick 2 (Returns \<lparr>st_status = ''complete'', st_current_page = 3, st_total_pages = 3,
                            st_message = ''done'', st_filename = ''a.md''\<rparr>) Throws]
       (wb_init (Returns [\<lparr>doc_id = ''d'', filename = ''a.pdf'', total_pages = 3, batch_size = Some 3,
            batches = [\<lparr>b_start = 1, b_end = 3, b_status = ''pending'', b_job_id = None,
                        b_result_file = None\<rparr>]\<rparr>]))) 3
     = None
   \<and> filter (\<lambda>e. e = Fetch ''GET'' (status_url ''j1''))
       (trace (wb_run
         [WbClickProcess ''d'' 0 (Returns \<lparr>dr_success = True, dr_job_id = ''j1'', dr_error = []\<rparr>),
          WbClickProcess ''d'' 0 (Returns \<lparr>dr_success = True, dr_job_id = ''j2'', dr_error = []\<rparr>),
          WbTick 2 (Returns \<lparr>st_status = ''complete'', st_current_page = 3, st_total_pages = 3,
                              st_message = ''done'', st_filename = ''a.md''\<rparr>) Throws,
          WbTick 2 (Returns \<lparr>st_status = ''complete'', st_current_page = 3, st_total_pages = 3,
                              st_message = ''done'', st_filename = ''a.md''\<rparr>) Throws]
         (wb_init (Returns [\<lparr>doc_id = ''d'', filename = ''a.pdf'', total_pages = 3, batch_size = Some 3,
              batches = [\<lparr>b_start = 1, b_end = 3, b_status = ''pending'', b_job_id = None,
                          b_result_file = None\<rparr>]\<rparr>]))))
     = [Fetch ''GET'' (status_url ''j1''), Fetch ''GET'' (status_url ''j1'')]
   \<and> timers (sp_run
       [SpFileSelect [\<lparr>f_name = ''a.pdf'', f_type = ''application/pdf''\<rparr>],
        SpClickProcess (Returns \<lparr>pr_success = True, pr_job_id = ''j1'', pr_error = []\<rparr>),
        SpFileSelect [\<lparr>f_name = ''b.pdf'', f_type = ''application/pdf''\<rparr>],
        SpClickProcess (Returns \<lparr>pr_success = True, pr_job_id = ''j2'', pr_error = []\<rparr>),
        SpTick 1 (Returns \<lparr>st_status = ''complete'', st_current_page = 3, st_total_pages = 3,
                            st_message = ''done'', st_filename = ''a.md''\<rparr>)]
       (sp_init True)) 1
     = Some (PollStatus ''j1'', 500)
   \<and> filter (\<lambda>e. e = Fetch ''GET'' (status_url ''j1''))
       (trace (sp_run
         [SpFileSelect [\<lparr>f_name = ''a.pdf'', f_type = ''application/pdf''\<rparr>],
          SpClickProcess (Returns \<lparr>pr_success = True, pr_job_id = ''j1'', pr_error = []\<rparr>),
          SpFileSelect [\<lparr>f_name = ''b.pdf'', f_type = ''application/pdf''\<rparr>],
          SpClickProcess (Returns \<lparr>pr_success = True, pr_job_id = ''j2'', pr_error = []\<rparr>),
          SpTick 1 (Returns \<lparr>st_status = ''complete'', st_current_page = 3, st_total_pages = 3,
                              st_message = ''done'', st_filename = ''a.md''\<rparr>),
          SpTick 1 (Returns \<lparr>st_status = ''complete'', st_current_page = 3, st_total_pages = 3,
                              st_message = ''done'', st_filename = ''a.md''\<rparr>)]
         (sp_init True)))
     = [Fetch ''GET'' (status_url ''j1''), Fetch ''GET'' (status_url ''j1'')]"
  by (simp add: wb_init_def loadDocuments_def 
        process_button_shown_def wb_processBatch_def wb_pollBatchStatus_def wb_poll_callback_def
        setInterval_def clearInterval_def emit_def Let_def status_url_def
        sp_init_def handleFileSelect_def showSelectedFile_def sp_processFile_def
        hideStatusMessages_def pollStatus_def)

subsection \<open>The order of batch statuses\<close>




subsection \<open>The completion of a document\<close>

lemma bp_poll_callback_signal_only_if:
  assumes "statusSuccess_display (bp_poll_callback docId i j r dr s) \<noteq> statusSuccess_display s
           \<or> statusSuccess_html (bp_poll_callback docId i j r dr s) \<noteq> statusSuccess_html s
           \<or> processBtn_disabled (bp_poll_callback docId i j r dr s) \<noteq> processBtn_disabled s"
  shows "\<exists>st docs u. r = Returns st \<and> st_status st = ''complete'' \<and> dr = Returns docs
           \<and> find (\<lambda>d. doc_id d = docId) docs = Some u
           \<and> list_all (\<lambda>b. b_status b = ''completed'') (batches u)"
proof (cases r)
  case Throws
  with assms show ?thesis by (simp add: bp_poll_callback_def)
next
  case (Returns st)
  show ?thesis
  proof (cases "st_status st = ''complete''")
    case True
    with assms Returns show ?thesis
      by (cases dr; cases "find (\<lambda>d. doc_id d = docId) (case dr of Returns docs \<Rightarrow> docs | Throws \<Rightarrow> [])")
         (auto simp: bp_poll_callback_def Let_def renderBatchProgress_def split: if_splits)
  next
    case False
    with assms Returns show ?thesis
      by (auto simp: bp_poll_callback_def Let_def renderBatchProgress_def set_batch_status_def
            split: if_splits option.splits)
  qed
qed

text \<open>
  Claim C3. When the poller of the batch page has observed \<^verbatim>\<open>'complete'\<close> and the documents
  it then fetched hold the polled document, that document becomes the current one, and: if
  every batch of it is \<^verbatim>\<open>'completed'\<close>, the success panel is shown with the message and
  its Download All link and the process button is enabled; if some batch is not, the panel,
  its text and the button stay as they were. And no callback of the poller, whatever it is
  answered, changes the panel, its text or the button in any other case.
\<close>

theorem completion_signalled_iff_all_completed:
  "(st_status st = ''complete'' \<and> find (\<lambda>d. doc_id d = docId) docs = Some u \<longrightarrow>
      currentDocument (bp_poll_callback docId i j (Returns st) (Returns docs) s) = Some u
      \<and> (if list_all (\<lambda>b. b_status b = ''completed'') (batches u)
         then statusSuccess_display (bp_poll_callback docId i j (Returns st) (Returns docs) s) = ''flex''
            \<and> statusSuccess_html (bp_poll_callback docId i j (Returns st) (Returns docs) s) =
                ''All batches complete! <a href=\"#\" onclick=\"downloadAll(event)\">Download All</a>''
            \<and> \<not> processBtn_disabled (bp_poll_callback docId i j (Returns st) (Returns docs) s)
         else statusSuccess_display (bp_poll_callback docId i j (Returns st) (Returns docs) s)
                = statusSuccess_display s
            \<and> statusSuccess_html (bp_poll_callback docId i j (Returns st) (Returns docs) s)
                = statusSuccess_html s
            \<and> processBtn_disabled (bp_poll_callback docId i j (Returns st) (Returns docs) s)
                = processBtn_disabled s))
   \<and> (statusSuccess_display (bp_poll_callback docId i j r dr s) \<noteq> statusSuccess_display s
        \<or> statusSuccess_html (bp_poll_callback docId i j r dr s) \<noteq> statusSuccess_html s
        \<or> processBtn_disabled (bp_poll_callback docId i j r dr s) \<noteq> processBtn_disabled s
      \<longrightarrow> (\<exists>st docs u. r = Returns st \<and> st_status st = ''complete'' \<and> dr = Returns docs
             \<and> find (\<lambda>d. doc_id d = docId) docs = Some u
             \<and> list_all (\<lambda>b. b_status b = ''completed'') (batches u)))"
proof (intro conjI impI)
  assume a: "st_status st = ''complete'' \<and> find (\<lambda>d. doc_id d = docId) docs = Some u"
  then have eq: "bp_poll_callback docId i j (Returns st) (Returns docs) s =
           (let s3 = (emit (Fetch ''GET'' ''/workbench/documents'')
                       (clearInterval (bp_pollIntervals s (pollId docId i))
                          (emit (Fetch ''GET'' (status_url j)) s)))
                     \<lparr>currentDocument := Some u, batchProgress_display := ''block''\<rparr>
            in if list_all (\<lambda>b. b_status b = ''completed'') (batches u)
               then showCompletionMessage (s3\<lparr>processBtn_disabled := False\<rparr>) else s3)"
    by (intro bp_poll_callback_complete_found) simp_all
  show "currentDocument (bp_poll_callback docId i j (Returns st) (Returns docs) s) = Some u"
    unfolding eq by (simp add: Let_def showCompletionMessage_def)
  show "if list_all (\<lambda>b. b_status b = ''completed'') (batches u)
         then statusSuccess_display (bp_poll_callback docId i j (Returns st) (Returns docs) s) = ''flex''
            \<and> statusSuccess_html (bp_poll_callback docId i j (Returns st) (Returns docs) s) =
                ''All batches complete! <a href=\"#\" onclick=\"downloadAll(event)\">Download All</a>''
            \<and> \<not> processBtn_disabled (bp_poll_callback docId i j (Returns st) (Returns docs) s)
         else statusSuccess_display (bp_poll_callback docId i j (Returns st) (Returns docs) s)
                = statusSuccess_display s
            \<and> statusSuccess_html (bp_poll_callback docId i j (Returns st) (Returns docs) s)
                = statusSuccess_html s
            \<and> processBtn_disabled (bp_poll_callback docId i j (Returns st) (Returns docs) s)
                = processBtn_disabled s"
    unfolding eq by (simp add: Let_def showCompletionMessage_def)
next
  assume "statusSuccess_display (bp_poll_callback docId i j r dr s) \<noteq> statusSuccess_display s
        \<or> statusSuccess_html (bp_poll_callback docId i j r dr s) \<noteq> statusSuccess_html s
        \<or> processBtn_disabled (bp_poll_callback docId i j r dr s) \<noteq> processBtn_disabled s"
  then show "\<exists>st docs u. r = Returns st \<and> st_status st = ''complete'' \<and> dr = Returns docs
             \<and> find (\<lambda>d. doc_id d = docId) docs = Some u
             \<and> list_all (\<lambda>b. b_status b = ''completed'') (batches u)"
    by (rule bp_poll_callback_signal_only_if)
qed

theorem completion_signalled_iff_all_completed_witness:
  "find (\<lambda>d. doc_id d = ''d'')
     [\<lparr>doc_id = ''d'', filename = ''a.pdf'', total_pages = 2, batch_size = Some 2,
       batches = [\<lparr>b_start = 1, b_end = 2, b_status = ''completed'', b_job_id = Some ''j'',
                   b_result_file = Some ''r.md''\<rparr>]\<rparr>]
     = Some \<lparr>doc_id = ''d'', filename = ''a.pdf'', total_pages = 2, batch_size = Some 2,
       batches = [\<lparr>b_start = 1, b_end = 2, b_status = ''completed'', b_job_id = Some ''j'',
                   b_result_file = Some ''r.md''\<rparr>]\<rparr>
   \<and> statusSuccess_display (bp_init True ''gpt'') = ''none''
   \<and> statusSuccess_display (bp_poll_callback ''d'' 0 ''j''
        (Returns \<lparr>st_status = ''complete'', st_current_page = 2, st_total_pages = 2,
                   st_message = ''done'', st_filename = ''r.md''\<rparr>)
        (Returns [\<lparr>doc_id = ''d'', filename = ''a.pdf'', total_pages = 2, batch_size = Some 2,
           batches = [\<lparr>b_start = 1, b_end = 2, b_status = ''completed'', b_job_id = Some ''j'',
                       b_result_file = Some ''r.md''\<rparr>]\<rparr>])
        (bp_init True ''gpt'')) = ''flex''
   \<and> \<not> processBtn_disabled (bp_poll_callback ''d'' 0 ''j''
        (Returns \<lparr>st_status = ''complete'', st_current_page = 2, st_total_pages = 2,
                   st_message = ''done'', st_filename = ''r.md''\<rparr>)
        (Returns [\<lparr>doc_id = ''d'', filename = ''a.pdf'', total_pages = 2, batch_size = Some 2,
           batches = [\<lparr>b_start = 1, b_end = 2, b_status = ''completed'', b_job_id = Some ''j'',
                       b_result_file = Some ''r.md''\<rparr>]\<rparr>])
        (bp_init True ''gpt''))"
proof -
  let ?u = "\<lparr>doc_id = ''d'', filename = ''a.pdf'', total_pages = 2, batch_size = Some 2,
       batches = [\<lparr>b_start = 1, b_end = 2, b_status = ''completed'', b_job_id = Some ''j'',
                   b_result_file = Some ''r.md''\<rparr>]\<rparr>"
  let ?st = "\<lparr>st_status = ''complete'', st_current_page = 2, st_total_pages = 2,
                   st_message = ''done'', st_filename = ''r.md''\<rparr>"
  let ?s = "bp_init True ''gpt''"
  have a: "st_status ?st = ''complete'' \<and> find (\<lambda>d. doc_id d = ''d'') [?u] = Some ?u" by simp
  have b: "list_all (\<lambda>b. b_status b = ''completed'') (batches ?u)" by simp
  have c: "statusSuccess_display ?s = ''none''" by (simp add: bp_init_def)
  note T = completion_signalled_iff_all_completed
             [of ?st "''d''" "[?u]" ?u 0 "''j''" ?s "Returns ?st" "Returns [?u]"]
  from T a b have d:
    "statusSuccess_display (bp_poll_callback ''d'' 0 ''j'' (Returns ?st) (Returns [?u]) ?s) = ''flex''
     \<and> \<not> processBtn_disabled (bp_poll_callback ''d'' 0 ''j'' (Returns ?st) (Returns [?u]) ?s)"
    by presburger
  then have "statusSuccess_display (bp_poll_callback ''d'' 0 ''j'' (Returns ?st) (Returns [?u]) ?s)
               \<noteq> statusSuccess_display ?s"
    using c by simp
  with T have "\<exists>st docs u. Returns ?st = Returns st \<and> st_status st = ''complete''
             \<and> (Returns [?u] :: document list fetched) = Returns docs
             \<and> find (\<lambda>d. doc_id d = ''d'') docs = Some u
             \<and> list_all (\<lambda>b. b_status b = ''completed'') (batches u)"
    by blast
  with a c d show ?thesis by blast
qed

subsection \<open>The refresh after a terminal status\<close>

text \<open>
  Claim C4, as the code has it. On the workbench, a poll callback that observes \<^verbatim>\<open>'complete'\<close>
  or \<^verbatim>\<open>'error'\<close> sends, after its status request, one request to the documents endpoint and
  takes the answer as the new document list. On the batch page this happens on
  \<^verbatim>\<open>'complete'\<close> only (the polled document, when the answer holds it, becomes the current
  one); on \<^verbatim>\<open>'error'\<close> the callback sends no request to the documents endpoint and sets the
  status of its batch in the cached document instead. In all these cases the handle stored
  under the poller's key is cleared.
\<close>

theorem terminal_status_refreshes_documents:
  "(st_status st = ''complete'' \<or> st_status st = ''error'' \<longrightarrow>
      trace (wb_poll_callback d i j (Returns st) dr s) =
        trace s @ [Fetch ''GET'' (status_url j), Fetch ''GET'' ''/workbench/documents'']
                @ (case dr of Throws \<Rightarrow> [ConsoleError ''Failed to load documents:'']
                   | Returns docs \<Rightarrow> [])
      \<and> documents (wb_poll_callback d i j (Returns st) dr s) =
          (case dr of Throws \<Rightarrow> documents s | Returns docs \<Rightarrow> docs)
      \<and> (\<forall>h. wb_pollIntervals s (pollId d i) = Some h \<longrightarrow>
             timers (wb_poll_callback d i j (Returns st) dr s) h = None))
   \<and> (st_status st' = ''complete'' \<longrightarrow>
      trace (bp_poll_callback d i j (Returns st') dr t) =
        trace t @ [Fetch ''GET'' (status_url j), Fetch ''GET'' ''/workbench/documents'']
                @ (case dr of Throws \<Rightarrow> [ConsoleError ''Status poll error:'']
                   | Returns docs \<Rightarrow> [])
      \<and> currentDocument (bp_poll_callback d i j (Returns st') dr t) =
          (case dr of
             Throws \<Rightarrow> currentDocument t
           | Returns docs \<Rightarrow>
               (case find (\<lambda>u. doc_id u = d) docs of None \<Rightarrow> currentDocument t | Some u \<Rightarrow> Some u))
      \<and> (\<forall>h. bp_pollIntervals t (pollId d i) = Some h \<longrightarrow>
             timers (bp_poll_callback d i j (Returns st') dr t) h = None))
   \<and> (st_status st'' = ''error'' \<longrightarrow>
      Fetch ''GET'' ''/workbench/documents''
        \<notin> set (drop (length (trace t)) (trace (bp_poll_callback d i j (Returns st'') dr t)))
      \<and> (\<forall>doc. currentDocument t = Some doc \<and> i < length (batches doc) \<longrightarrow>
             currentDocument (bp_poll_callback d i j (Returns st'') dr t)
               = Some (with_status i ''error'' doc))
      \<and> (\<forall>h. bp_pollIntervals t (pollId d i) = Some h \<longrightarrow>
             timers (bp_poll_callback d i j (Returns st'') dr t) h = None))"
proof (intro conjI impI allI)
  assume a: "st_status st = ''complete'' \<or> st_status st = ''error''"
  note eq = wb_poll_callback_terminal [OF a, of d i j dr s]
  show "trace (wb_poll_callback d i j (Returns st) dr s) =
        trace s @ [Fetch ''GET'' (status_url j), Fetch ''GET'' ''/workbench/documents'']
                @ (case dr of Throws \<Rightarrow> [ConsoleError ''Failed to load documents:'']
                   | Returns docs \<Rightarrow> [])"
    unfolding eq by (simp add: trace_loadDocuments)
  show "documents (wb_poll_callback d i j (Returns st) dr s) =
          (case dr of Throws \<Rightarrow> documents s | Returns docs \<Rightarrow> docs)"
    unfolding eq by (simp add: documents_loadDocuments split: fetched.splits)
  fix h assume "wb_pollIntervals s (pollId d i) = Some h"
  with a show "timers (wb_poll_callback d i j (Returns st) dr s) h = None"
    by (simp add: timers_wb_poll_callback)
next
  assume a: "st_status st' = ''complete''"
  then show "trace (bp_poll_callback d i j (Returns st') dr t) =
        trace t @ [Fetch ''GET'' (status_url j), Fetch ''GET'' ''/workbench/documents'']
                @ (case dr of Throws \<Rightarrow> [ConsoleError ''Status poll error:'']
                   | Returns docs \<Rightarrow> [])"
    by (simp add: trace_bp_poll_callback)
  from a show "currentDocument (bp_poll_callback d i j (Returns st') dr t) =
          (case dr of
             Throws \<Rightarrow> currentDocument t
           | Returns docs \<Rightarrow>
               (case find (\<lambda>u. doc_id u = d) docs of None \<Rightarrow> currentDocument t | Some u \<Rightarrow> Some u))"
    by (rule currentDocument_bp_poll_callback_complete)
  fix h assume "bp_pollIntervals t (pollId d i) = Some h"
  with a show "timers (bp_poll_callback d i j (Returns st') dr t) h = None"
    by (simp add: timers_bp_poll_callback)
next
  assume a: "st_status st'' = ''error''"
  then show "Fetch ''GET'' ''/workbench/documents''
        \<notin> set (drop (length (trace t)) (trace (bp_poll_callback d i j (Returns st'') dr t)))"
    by (auto simp: trace_bp_poll_callback status_url_def split: option.splits)
  { fix doc assume "currentDocument t = Some doc \<and> i < length (batches doc)"
    with a show "currentDocument (bp_poll_callback d i j (Returns st'') dr t)
               = Some (with_status i ''error'' doc)"
      by (simp add: bp_poll_callback_error) }
  fix h assume "bp_pollIntervals t (pollId d i) = Some h"
  with a show "timers (bp_poll_callback d i j (Returns st'') dr t) h = None"
    by (simp add: timers_bp_poll_callback)
qed

text \<open>The claim as stated fails on the batch page: its poller, on \<^verbatim>\<open>'error'\<close>, sends no
  request to the documents endpoint; it marks the batch in the cached document itself.\<close>

theorem error_status_without_refresh:
  "trace (bp_poll_callback ''d'' 0 ''j''
      (Returns \<lparr>st_status = ''error'', st_current_page = 1, st_total_pages = 2,
                 st_message = ''OCR failed'', st_filename = []\<rparr>)
      (Returns [\<lparr>doc_id = ''d'', filename = ''a.pdf'', total_pages = 2, batch_size = Some 2,
          batches = [\<lparr>b_start = 1, b_end = 2, b_status = ''error'', b_job_id = Some ''j'',
                      b_result_file = None\<rparr>]\<rparr>])
      ((bp_init True ''gpt'')
         \<lparr>currentDocument := Some \<lparr>doc_id = ''d'', filename = ''a.pdf'', total_pages = 2, batch_size = None,
            batches = [\<lparr>b_start = 1, b_end = 2, b_status = ''processing'', b_job_id = None,
                        b_result_file = None\<rparr>]\<rparr>\<rparr>))
     = [Fetch ''GET'' (status_url ''j'')]
   \<and> Fetch ''GET'' (status_url ''j'') \<noteq> Fetch ''GET'' ''/workbench/documents''
   \<and> currentDocument (bp_poll_callback ''d'' 0 ''j''
      (Returns \<lparr>st_status = ''error'', st_current_page = 1, st_total_pages = 2,
                 st_message = ''OCR failed'', st_filename = []\<rparr>)
      (Returns [\<lparr>doc_id = ''d'', filename = ''a.pdf'', total_pages = 2, batch_size = Some 2,
          batches = [\<lparr>b_start = 1, b_end = 2, b_status = ''error'', b_job_id = Some ''j'',
                      b_result_file = None\<rparr>]\<rparr>])
      ((bp_init True ''gpt'')
         \<lparr>currentDocument := Some \<lparr>doc_id = ''d'', filename = ''a.pdf'', total_pages = 2, batch_size = None,
            batches = [\<lparr>b_start = 1, b_end = 2, b_status = ''processing'', b_job_id = None,
                        b_result_file = None\<rparr>]\<rparr>\<rparr>))
     = Some \<lparr>doc_id = ''d'', filename = ''a.pdf'', total_pages = 2, batch_size = None,
            batches = [\<lparr>b_start = 1, b_end = 2, b_status = ''error'', b_job_id = None,
                        b_result_file = None\<rparr>]\<rparr>"
  by (simp add: bp_poll_callback_def set_batch_status_def renderBatchProgress_def emit_def
        clearInterval_def bp_init_def Let_def status_url_def)

theorem terminal_status_refreshes_documents_witness:
  "trace (wb_poll_callback ''d'' 0 ''j''
      (Returns \<lparr>st_status = ''error'', st_current_page = 1, st_total_pages = 2,
                 st_message = ''OCR failed'', st_filename = []\<rparr>) (Returns [])
      \<lparr>timers = [2 \<mapsto> (PollBatchStatus ''d'' 0 ''j'', 500)], next_handle = 3, trace = [],
       documents = [], wb_pollIntervals = [pollId ''d'' 0 \<mapsto> 2]\<rparr>)
     = [Fetch ''GET'' (status_url ''j''), Fetch ''GET'' ''/workbench/documents'']
   \<and> timers (wb_poll_callback ''d'' 0 ''j''
      (Returns \<lparr>st_status = ''error'', st_current_page = 1, st_total_pages = 2,
                 st_message = ''OCR failed'', st_filename = []\<rparr>) (Returns [])
      \<lparr>timers = [2 \<mapsto> (PollBatchStatus ''d'' 0 ''j'', 500)], next_handle = 3, trace = [],
       documents = [], wb_pollIntervals = [pollId ''d'' 0 \<mapsto> 2]\<rparr>) 2 = None
   \<and> trace (bp_poll_callback ''d'' 0 ''j''
      (Returns \<lparr>st_status = ''complete'', st_current_page = 2, st_total_pages = 2,
                 st_message = ''done'', st_filename = ''r.md''\<rparr>) (Returns [])
      ((bp_init True ''gpt'')
         \<lparr>timers := [1 \<mapsto> (PollBatchStatus ''d'' 0 ''j'', 500)],
          bp_pollIntervals := [pollId ''d'' 0 \<mapsto> 1],
          currentDocument := Some \<lparr>doc_id = ''d'', filename = ''a.pdf'', total_pages = 2, batch_size = None,
            batches = [\<lparr>b_start = 1, b_end = 2, b_status = ''processing'', b_job_id = None,
                        b_result_file = None\<rparr>]\<rparr>\<rparr>))
     = [Fetch ''GET'' (status_url ''j''), Fetch ''GET'' ''/workbench/documents'']
   \<and> timers (bp_poll_callback ''d'' 0 ''j''
      (Returns \<lparr>st_status = ''error'', st_current_page = 1, st_total_pages = 2,
                 st_message = ''OCR failed'', st_filename = []\<rparr>) (Returns [])
      ((bp_init True ''gpt'')
         \<lparr>timers := [1 \<mapsto> (PollBatchStatus ''d'' 0 ''j'', 500)],
          bp_pollIntervals := [pollId ''d'' 0 \<mapsto> 1],
          currentDocument := Some \<lparr>doc_id = ''d'', filename = ''a.pdf'', total_pages = 2, batch_size = None,
            batches = [\<lparr>b_start = 1, b_end = 2, b_status = ''processing'', b_job_id = None,
                        b_result_file = None\<rparr>]\<rparr>\<rparr>)) 1 = None"
proof -
  let ?err = "\<lparr>st_status = ''error'', st_current_page = 1, st_total_pages = 2,
                 st_message = ''OCR failed'', st_filename = []\<rparr>"
  let ?done = "\<lparr>st_status = ''complete'', st_current_page = 2, st_total_pages = 2,
                 st_message = ''done'', st_filename = ''r.md''\<rparr>"
  let ?s = "\<lparr>timers = [2 \<mapsto> (PollBatchStatus ''d'' 0 ''j'', 500)], next_handle = 3, trace = [],
       documents = [], wb_pollIntervals = [pollId ''d'' 0 \<mapsto> 2]\<rparr>"
  let ?doc = "\<lparr>doc_id = ''d'', filename = ''a.pdf'', total_pages = 2, batch_size = None,
            batches = [\<lparr>b_start = 1, b_end = 2, b_status = ''processing'', b_job_id = None,
                        b_result_file = None\<rparr>]\<rparr>"
  let ?t = "(bp_init True ''gpt'')
         \<lparr>timers := [1 \<mapsto> (PollBatchStatus ''d'' 0 ''j'', 500)],
          bp_pollIntervals := [pollId ''d'' 0 \<mapsto> 1],
          currentDocument := Some ?doc\<rparr>"
  have a: "st_status ?err = ''complete'' \<or> st_status ?err = ''error''" by simp
  have b: "st_status ?done = ''complete''" by simp
  have c: "st_status ?err = ''error''" by simp
  have k: "wb_pollIntervals ?s (pollId ''d'' 0) = Some 2" by simp
  have k': "bp_pollIntervals ?t (pollId ''d'' 0) = Some 1" by simp
  have tr: "trace ?s = []" "trace ?t = []" by (simp_all add: bp_init_def)
  note T = terminal_status_refreshes_documents
             [of ?err "''d''" 0 "''j''" "Returns []" ?s ?done ?t ?err]
  from T a have "trace (wb_poll_callback ''d'' 0 ''j'' (Returns ?err) (Returns []) ?s) =
        trace ?s @ [Fetch ''GET'' (status_url ''j''), Fetch ''GET'' ''/workbench/documents'']
                @ (case (Returns [] :: document list fetched) of
                     Throws \<Rightarrow> [ConsoleError ''Failed to load documents:'']
                   | Returns docs \<Rightarrow> [])"
    by blast
  then have w1: "trace (wb_poll_callback ''d'' 0 ''j'' (Returns ?err) (Returns []) ?s)
     = [Fetch ''GET'' (status_url ''j''), Fetch ''GET'' ''/workbench/documents'']"
    unfolding tr by simp
  from T a k have w2: "timers (wb_poll_callback ''d'' 0 ''j'' (Returns ?err) (Returns []) ?s) 2 = None"
    by blast
  from T b have "trace (bp_poll_callback ''d'' 0 ''j'' (Returns ?done) (Returns []) ?t) =
        trace ?t @ [Fetch ''GET'' (status_url ''j''), Fetch ''GET'' ''/workbench/documents'']
                @ (case (Returns [] :: document list fetched) of
                     Throws \<Rightarrow> [ConsoleError ''Status poll error:'']
                   | Returns docs \<Rightarrow> [])"
    by blast
  then have w3: "trace (bp_poll_callback ''d'' 0 ''j'' (Returns ?done) (Returns []) ?t)
     = [Fetch ''GET'' (status_url ''j''), Fetch ''GET'' ''/workbench/documents'']"
    unfolding tr by simp
  from T c k' have w4: "timers (bp_poll_callback ''d'' 0 ''j'' (Returns ?err) (Returns []) ?t) 1 = None"
    by blast
  from w1 w2 w3 w4 show ?thesis by blast
qed

subsection \<open>Which batches are dispatched\<close>

text \<open>
  Claim C5 says that the automatic processing after an upload dispatches exactly the pending
  batches, in ascending order. A loop of \<^verbatim>\<open>processAllBatches\<close> does send a dispatch only for
  a batch that is \<^verbatim>\<open>'pending'\<close> when it is sent, and its index only grows. But the loop
  reads the global \<^verbatim>\<open>currentDocument\<close> again after every \<^verbatim>\<open>await\<close>, and choosing a file
  enables the process button while the loop is waiting. Below, a document \<open>d\<close> with three
  pending batches is uploaded, and while its first dispatch is awaited a second document \<open>e\<close>
  with one batch is uploaded. When the answers have arrived nothing is awaited any more, and
  the batches 1 and 2 of \<open>d\<close> were never dispatched: the first loop went on in \<open>e\<close> and ended
  there. In the second run \<open>e\<close> has two batches, and its batch 1 is dispatched twice, once by
  each loop, because it is still \<^verbatim>\<open>'pending'\<close> until an answer arrives.
\<close>

theorem second_upload_starves_first_loop:
  "trace (bp_run
      [BpFileSelect [\<lparr>f_name = ''a.pdf'', f_type = ''application/pdf''\<rparr>],
       BpClickProcess,
       BpUploadAnswer (Returns \<lparr>up_success = True, up_doc_id = ''d'', up_filename = ''a.pdf'',
          up_total_pages = 6,
          up_batches = [\<lparr>b_start = 1, b_end = 2, b_status = ''pending'', b_job_id = None, b_result_file = None\<rparr>,
                        \<lparr>b_start = 3, b_end = 4, b_status = ''pending'', b_job_id = None, b_result_file = None\<rparr>,
                        \<lparr>b_start = 5, b_end = 6, b_status = ''pending'', b_job_id = None, b_result_file = None\<rparr>],
          up_error = []\<rparr>),
       BpFileSelect [\<lparr>f_name = ''b.pdf'', f_type = ''application/pdf''\<rparr>],
       BpClickProcess,
       BpUploadAnswer (Returns \<lparr>up_success = True, up_doc_id = ''e'', up_filename = ''b.pdf'',
          up_total_pages = 2,
          up_batches = [\<lparr>b_start = 1, b_end = 2, b_status = ''pending'', b_job_id = None, b_result_file = None\<rparr>],
          up_error = []\<rparr>),
       BpDispatchAnswer 0 (Returns \<lparr>dr_success = True, dr_job_id = ''j1'', dr_error = []\<rparr>),
       BpDispatchAnswer 0 (Returns \<lparr>dr_success = True, dr_job_id = ''j2'', dr_error = []\<rparr>)]
      (bp_init True ''gpt''))
     = [Fetch ''POST'' ''/workbench/upload'',
        Fetch ''POST'' (process_batch_url ''d'' 0 ''gpt''),
        Fetch ''POST'' ''/workbench/upload'',
        Fetch ''POST'' (process_batch_url ''e'' 0 ''gpt'')]
   \<and> dispatches_awaited (bp_run
      [BpFileSelect [\<lparr>f_name = ''a.pdf'', f_type = ''application/pdf''\<rparr>],
       BpClickProcess,
       BpUploadAnswer (Returns \<lparr>up_success = True, up_doc_id = ''d'', up_filename = ''a.pdf'',
          up_total_pages = 6,
          up_batches = [\<lparr>b_start = 1, b_end = 2, b_status = ''pending'', b_job_id = None, b_result_file = None\<rparr>,
                        \<lparr>b_start = 3, b_end = 4, b_status = ''pending'', b_job_id = None, b_result_file = None\<rparr>,
                        \<lparr>b_start = 5, b_end = 6, b_status = ''pending'', b_job_id = None, b_result_file = None\<rparr>],
          up_error = []\<rparr>),
       BpFileSelect [\<lparr>f_name = ''b.pdf'', f_type = ''application/pdf''\<rparr>],
       BpClickProcess,
       BpUploadAnswer (Returns \<lparr>up_success = True, up_doc_id = ''e'', up_filename = ''b.pdf'',
          up_total_pages = 2,
          up_batches = [\<lparr>b_start = 1, b_end = 2, b_status = ''pending'', b_job_id = None, b_result_file = None\<rparr>],
          up_error = []\<rparr>),
       BpDispatchAnswer 0 (Returns \<lparr>dr_success = True, dr_job_id = ''j1'', dr_error = []\<rparr>),
       BpDispatchAnswer 0 (Returns \<lparr>dr_success = True, dr_job_id = ''j2'', dr_error = []\<rparr>)]
      (bp_init True ''gpt''))
     = []
   \<and> uploads_awaited (bp_run
      [BpFileSelect [\<lparr>f_name = ''a.pdf'', f_type = ''application/pdf''\<rparr>],
       BpClickProcess,
       BpUploadAnswer (Returns \<lparr>up_success = True, up_doc_id = ''d'', up_filename = ''a.pdf'',
          up_total_pages = 6,
          up_batches = [\<lparr>b_start = 1, b_end = 2, b_status = ''pending'', b_job_id = None, b_result_file = None\<rparr>,
                        \<lparr>b_start = 3, b_end = 4, b_status = ''pending'', b_job_id = None, b_result_file = None\<rparr>,
                        \<lparr>b_start = 5, b_end = 6, b_status = ''pending'', b_job_id = None, b_result_file = None\<rparr>],
          up_error = []\<rparr>),
       BpFileSelect [\<lparr>f_name = ''b.pdf'', f_type = ''application/pdf''\<rparr>],
       BpClickProcess,
       BpUploadAnswer (Returns \<lparr>up_success = True, up_doc_id = ''e'', up_filename = ''b.pdf'',
          up_total_pages = 2,
          up_batches = [\<lparr>b_start = 1, b_end = 2, b_status = ''pending'', b_job_id = None, b_result_file = None\<rparr>],
          up_error = []\<rparr>),
       BpDispatchAnswer 0 (Returns \<lparr>dr_success = True, dr_job_id = ''j1'', dr_error = []\<rparr>),
       BpDispatchAnswer 0 (Returns \<lparr>dr_success = True, dr_job_id = ''j2'', dr_error = []\<rparr>)]
      (bp_init True ''gpt''))
     = 0
   \<and> trace (bp_run
      [BpFileSelect [\<lparr>f_name = ''a.pdf'', f_type = ''application/pdf''\<rparr>],
       BpClickProcess,
       BpUploadAnswer (Returns \<lparr>up_success = True, up_doc_id = ''d'', up_filename = ''a.pdf'',
          up_total_pages = 2,
          up_batches = [\<lparr>b_start = 1, b_end = 2, b_status = ''pending'', b_job_id = None, b_result_file = None\<rparr>],
          up_error = []\<rparr>),
       BpFileSelect [\<lparr>f_name = ''b.pdf'', f_type = ''application/pdf''\<rparr>],
       BpClickProcess,
       BpUploadAnswer (Returns \<lparr>up_success = True, up_doc_id = ''e'', up_filename = ''b.pdf'',
          up_total_pages = 4,
          up_batches = [\<lparr>b_start = 1, b_end = 2, b_status = ''pending'', b_job_id = None, b_result_file = None\<rparr>,
                        \<lparr>b_start = 3, b_end = 4, b_status = ''pending'', b_job_id = None, b_result_file = None\<rparr>],
          up_error = []\<rparr>),
       BpDispatchAnswer 0 (Returns \<lparr>dr_success = True, dr_job_id = ''j1'', dr_error = []\<rparr>),
       BpDispatchAnswer 0 (Returns \<lparr>dr_success = True, dr_job_id = ''j2'', dr_error = []\<rparr>)]
      (bp_init True ''gpt''))
     = [Fetch ''POST'' ''/workbench/upload'',
        Fetch ''POST'' (process_batch_url ''d'' 0 ''gpt''),
        Fetch ''POST'' ''/workbench/upload'',
        Fetch ''POST'' (process_batch_url ''e'' 0 ''gpt''),
        Fetch ''POST'' (process_batch_url ''e'' 1 ''gpt''),
        Fetch ''POST'' (process_batch_url ''e'' 1 ''gpt'')]"
  by (simp add: bp_init_def handleFileSelect_def showSelectedFile_def bp_processFile_def
        bp_processFile_resume_def processAllBatches_def processAllBatches_from.simps
        processAllBatches_resume_def bp_processBatch_def bp_processBatch_resume_def
        bp_pollBatchStatus_def set_batch_status_def renderBatchProgress_def
        hideStatusMessages_def emit_def setInterval_def Let_def)

subsection \<open>A job that failed\<close>

text \<open>
  Claim C6 says that a failed job changes the status of the batch that owns it and nothing
  else. The error branch of the poller does leave every other batch of the current document,
  and every other timer, as they were; but it writes to the batch at the job's index of
  whatever document is current, without comparing its id with the job's (the complete branch
  looks the document up by that id). Below, document \<open>d\<close> is uploaded and its only batch
  dispatched; then document \<open>e\<close> is uploaded, its only batch dispatched, observed complete
  and refreshed, so that the current document is \<open>e\<close> with its batch \<^verbatim>\<open>'completed'\<close>, while
  the timer of \<open>d\<close>'s job (handle 1) is still running. When that job is observed
  \<^verbatim>\<open>'error'\<close>, the batch of \<open>e\<close> goes from \<^verbatim>\<open>'completed'\<close> to \<^verbatim>\<open>'error'\<close>.
\<close>

theorem job_error_marks_other_document:
  "currentDocument (bp_run
      [BpFileSelect [\<lparr>f_name = ''a.pdf'', f_type = ''application/pdf''\<rparr>],
       BpClickProcess,
       BpUploadAnswer (Returns \<lparr>up_success = True, up_doc_id = ''d'', up_filename = ''a.pdf'',
          up_total_pages = 2,
          up_batches = [\<lparr>b_start = 1, b_end = 2, b_status = ''pending'', b_job_id = None, b_result_file = None\<rparr>],
          up_error = []\<rparr>),
       BpDispatchAnswer 0 (Returns \<lparr>dr_success = True, dr_job_id = ''jd'', dr_error = []\<rparr>),
       BpFileSelect [\<lparr>f_name = ''b.pdf'', f_type = ''application/pdf''\<rparr>],
       BpClickProcess,
       BpUploadAnswer (Returns \<lparr>up_success = True, up_doc_id = ''e'', up_filename = ''b.pdf'',
          up_total_pages = 2,
          up_batches = [\<lparr>b_start = 1, b_end = 2, b_status = ''pending'', b_job_id = None, b_result_file = None\<rparr>],
          up_error = []\<rparr>),
       BpDispatchAnswer 0 (Returns \<lparr>dr_success = True, dr_job_id = ''je'', dr_error = []\<rparr>),
       BpTick 2 (Returns \<lparr>st_status = ''complete'', st_current_page = 2, st_total_pages = 2,
                           st_message = ''done'', st_filename = ''r.md''\<rparr>)
         (Returns [\<lparr>doc_id = ''e'', filename = ''b.pdf'', total_pages = 2, batch_size = Some 2,
            batches = [\<lparr>b_start = 1, b_end = 2, b_status = ''completed'', b_job_id = Some ''je'',
                        b_result_file = Some ''r.md''\<rparr>]\<rparr>])]
      (bp_init True ''gpt''))
     = Some \<lparr>doc_id = ''e'', filename = ''b.pdf'', total_pages = 2, batch_size = Some 2,
            batches = [\<lparr>b_start = 1, b_end = 2, b_status = ''completed'', b_job_id = Some ''je'',
                        b_result_file = Some ''r.md''\<rparr>]\<rparr>
   \<and> timers (bp_run
      [BpFileSelect [\<lparr>f_name = ''a.pdf'', f_type = ''application/pdf''\<rparr>],
       BpClickProcess,
       BpUploadAnswer (Returns \<lparr>up_success = True, up_doc_id = ''d'', up_filename = ''a.pdf'',
          up_total_pages = 2,
          up_batches = [\<lparr>b_start = 1, b_end = 2, b_status = ''pending'', b_job_id = None, b_result_file = None\<rparr>],
          up_error = []\<rparr>),
       BpDispatchAnswer 0 (Returns \<lparr>dr_success = True, dr_job_id = ''jd'', dr_error = []\<rparr>),
       BpFileSelect [\<lparr>f_name = ''b.pdf'', f_type = ''application/pdf''\<rparr>],
       BpClickProcess,
       BpUploadAnswer (Returns \<lparr>up_success = True, up_doc_id = ''e'', up_filename = ''b.pdf'',
          up_total_pages = 2,
          up_batches = [\<lparr>b_start = 1, b_end = 2, b_status = ''pending'', b_job_id = None, b_result_file = None\<rparr>],
          up_error = []\<rparr>),
       BpDispatchAnswer 0 (Returns \<lparr>dr_success = True, dr_job_id = ''je'', dr_error = []\<rparr>),
       BpTick 2 (Returns \<lparr>st_status = ''complete'', st_current_page = 2, st_total_pages = 2,
                           st_message = ''done'', st_filename = ''r.md''\<rparr>)
         (Returns [\<lparr>doc_id = ''e'', filename = ''b.pdf'', total_pages = 2, batch_size = Some 2,
            batches = [\<lparr>b_start = 1, b_end = 2, b_status = ''completed'', b_job_id = Some ''je'',
                        b_result_file = Some ''r.md''\<rparr>]\<rparr>])]
      (bp_init True ''gpt'')) 1
     = Some (PollBatchStatus ''d'' 0 ''jd'', 500)
   \<and> currentDocument (bp_run
      [BpFileSelect [\<lparr>f_name = ''a.pdf'', f_type = ''application/pdf''\<rparr>],
       BpClickProcess,
       BpUploadAnswer (Returns \<lparr>up_success = True, up_doc_id = ''d'', up_filename = ''a.pdf'',
          up_total_pages = 2,
          up_batches = [\<lparr>b_start = 1, b_end = 2, b_status = ''pending'', b_job_id = None, b_result_file = None\<rparr>],
          up_error = []\<rparr>),
       BpDispatchAnswer 0 (Returns \<lparr>dr_success = True, dr_job_id = ''jd'', dr_error = []\<rparr>),
       BpFileSelect [\<lparr>f_name = ''b.pdf'', f_type = ''application/pdf''\<rparr>],
       BpClickProcess,
       BpUploadAnswer (Returns \<lparr>up_success = True, up_doc_id = ''e'', up_filename = ''b.pdf'',
          up_total_pages = 2,
          up_batches = [\<lparr>b_start = 1, b_end = 2, b_status = ''pending'', b_job_id = None, b_result_file = None\<rparr>],
          up_error = []\<rparr>),
       BpDispatchAnswer 0 (Returns \<lparr>dr_success = True, dr_job_id = ''je'', dr_error = []\<rparr>),
       BpTick 2 (Returns \<lparr>st_status = ''complete'', st_current_page = 2, st_total_pages = 2,
                           st_message = ''done'', st_filename = ''r.md''\<rparr>)
         (Returns [\<lparr>doc_id = ''e'', filename = ''b.pdf'', total_pages = 2, batch_size = Some 2,
            batches = [\<lparr>b_start = 1, b_end = 2, b_status = ''completed'', b_job_id = Some ''je'',
                        b_result_file = Some ''r.md''\<rparr>]\<rparr>]),
       BpTick 1 (Returns \<lparr>st_status = ''error'', st_current_page = 1, st_total_pages = 2,
                           st_message = ''OCR failed'', st_filename = []\<rparr>) Throws]
      (bp_init True ''gpt''))
     = Some \<lparr>doc_id = ''e'', filename = ''b.pdf'', total_pages = 2, batch_size = Some 2,
            batches = [\<lparr>b_start = 1, b_end = 2, b_status = ''error'', b_job_id = Some ''je'',
                        b_result_file = Some ''r.md''\<rparr>]\<rparr>"
  by (simp add: bp_init_def handleFileSelect_def showSelectedFile_def bp_processFile_def
        bp_processFile_resume_def processAllBatches_def processAllBatches_from.simps
        processAllBatches_resume_def bp_processBatch_def bp_processBatch_resume_def
        bp_pollBatchStatus_def bp_poll_callback_def set_batch_status_def renderBatchProgress_def
        showCompletionMessage_def hideStatusMessages_def emit_def setInterval_def
        clearInterval_def Let_def pollId_inj)

subsection \<open>File selection\<close>

lemma handleFileSelect_non_pdf: "\<not> pdf_first files \<Longrightarrow> handleFileSelect files s = s"
  by (simp add: handleFileSelect_def pdf_first_def split: list.splits)

lemma handleDrop_non_pdf: "\<not> pdf_first files \<Longrightarrow> handleDrop files s = s\<lparr>drag_over := False\<rparr>"
  by (simp add: handleDrop_def pdf_first_def split: list.splits)

lemma sp_step_idle: "idle btn s \<Longrightarrow> \<not> sp_offers_pdf e \<Longrightarrow> idle btn (sp_step e s)"
  by (cases e)
     (auto simp: idle_def handleFileSelect_non_pdf handleDrop_non_pdf handleDragOver_def
        handleDragLeave_def sp_processFile_def)

lemma sp_run_idle:
  "idle btn s \<Longrightarrow> list_all (\<lambda>e. \<not> sp_offers_pdf e) es \<Longrightarrow> idle btn (sp_run es s)"
  by (induction es arbitrary: s) (simp_all add: sp_step_idle)

lemma bp_step_idle:
  "idle btn s \<Longrightarrow> currentDocument s = None \<Longrightarrow> uploads_awaited s = 0 \<Longrightarrow> dispatches_awaited s = []
   \<Longrightarrow> \<not> bp_offers_pdf e
   \<Longrightarrow> idle btn (bp_step e s) \<and> currentDocument (bp_step e s) = None
       \<and> uploads_awaited (bp_step e s) = 0 \<and> dispatches_awaited (bp_step e s) = []"
  by (cases e)
     (auto simp: idle_def handleFileSelect_non_pdf handleDrop_non_pdf handleDragOver_def
        handleDragLeave_def bp_processFile_def bp_processFile_resume_def
        processAllBatches_resume_def)

lemma bp_run_idle:
  "idle btn s \<Longrightarrow> currentDocument s = None \<Longrightarrow> uploads_awaited s = 0 \<Longrightarrow> dispatches_awaited s = []
   \<Longrightarrow> list_all (\<lambda>e. \<not> bp_offers_pdf e) es
   \<Longrightarrow> idle btn (bp_run es s) \<and> currentDocument (bp_run es s) = None"
proof (induction es arbitrary: s)
  case Nil
  then show ?case by simp
next
  case (Cons e es)
  from Cons.prems have "\<not> bp_offers_pdf e" and rest: "list_all (\<lambda>e. \<not> bp_offers_pdf e) es"
    by simp_all
  from bp_step_idle [OF Cons.prems(1-4) this(1)] Cons.IH [OF _ _ _ _ rest]
  show ?case by simp
qed

text \<open>
  Claim C8. A selection or a drop whose first file is not of type \<^verbatim>\<open>application/pdf\<close> (or
  that carries no file) leaves the whole state as it was, the selected file and the process
  button included; a drop only takes the drag-over mark off the drop zone. So on either page,
  as long as no PDF is offered, whatever else the user does and whatever answers arrive,
  no file is selected, the process button is as the page loaded it (disabled, if it was), no
  request is sent and no timer runs (and the batch page has no document).
\<close>

theorem non_pdf_input_creates_no_state:
  fixes s :: "'a page_scheme"
  shows "(\<not> pdf_first files \<longrightarrow>
            handleFileSelect files s = s \<and> handleDrop files s = s\<lparr>drag_over := False\<rparr>)
       \<and> (list_all (\<lambda>e. \<not> sp_offers_pdf e) es \<longrightarrow> idle btn (sp_run es (sp_init btn)))
       \<and> (list_all (\<lambda>e. \<not> bp_offers_pdf e) bs \<longrightarrow>
            idle btn (bp_run bs (bp_init btn model))
            \<and> currentDocument (bp_run bs (bp_init btn model)) = None)"
proof (intro conjI impI)
  assume "\<not> pdf_first files"
  then show "handleFileSelect files s = s" by (rule handleFileSelect_non_pdf)
next
  assume "\<not> pdf_first files"
  then show "handleDrop files s = s\<lparr>drag_over := False\<rparr>" by (rule handleDrop_non_pdf)
next
  assume "list_all (\<lambda>e. \<not> sp_offers_pdf e) es"
  moreover have "idle btn (sp_init btn)" by (simp add: idle_def sp_init_def)
  ultimately show "idle btn (sp_run es (sp_init btn))" by (simp add: sp_run_idle)
next
  assume es: "list_all (\<lambda>e. \<not> bp_offers_pdf e) bs"
  have i: "idle btn (bp_init btn model)" and c: "currentDocument (bp_init btn model) = None"
    and u: "uploads_awaited (bp_init btn model) = 0" and w: "dispatches_awaited (bp_init btn model) = []"
    by (simp_all add: idle_def bp_init_def)
  from bp_run_idle [OF i c u w es]
  show "idle btn (bp_run bs (bp_init btn model))"
    and "currentDocument (bp_run bs (bp_init btn model)) = None" by simp_all
qed

theorem non_pdf_input_creates_no_state_witness:
  "\<not> pdf_first [\<lparr>f_name = ''notes.txt'', f_type = ''text/plain''\<rparr>]
   \<and> handleFileSelect [\<lparr>f_name = ''notes.txt'', f_type = ''text/plain''\<rparr>] (sp_init True) = sp_init True
   \<and> list_all (\<lambda>e. \<not> sp_offers_pdf e)
         [SpDrop [\<lparr>f_name = ''notes.txt'', f_type = ''text/plain''\<rparr>], SpClickProcess Throws]
   \<and> idle True (sp_run [SpDrop [\<lparr>f_name = ''notes.txt'', f_type = ''text/plain''\<rparr>],
                    SpClickProcess Throws] (sp_init True))
   \<and> list_all (\<lambda>e. \<not> bp_offers_pdf e)
         [BpFileSelect [\<lparr>f_name = ''notes.txt'', f_type = ''text/plain''\<rparr>],
          BpClickProcess, BpUploadAnswer Throws]
   \<and> idle True (bp_run [BpFileSelect [\<lparr>f_name = ''notes.txt'', f_type = ''text/plain''\<rparr>],
                    BpClickProcess, BpUploadAnswer Throws] (bp_init True ''gpt''))"
proof -
  let ?txt = "[\<lparr>f_name = ''notes.txt'', f_type = ''text/plain''\<rparr>]"
  have a: "\<not> pdf_first ?txt" by (simp add: pdf_first_def)
  have b: "list_all (\<lambda>e. \<not> sp_offers_pdf e) [SpDrop ?txt, SpClickProcess Throws]"
    by (simp add: pdf_first_def)
  have c: "list_all (\<lambda>e. \<not> bp_offers_pdf e) [BpFileSelect ?txt, BpClickProcess, BpUploadAnswer Throws]"
    by (simp add: pdf_first_def)
  show ?thesis
    using a b c
      non_pdf_input_creates_no_state
        [of ?txt "sp_init True" "[SpDrop ?txt, SpClickProcess Throws]" True
            "[BpFileSelect ?txt, BpClickProcess, BpUploadAnswer Throws]" "''gpt''"]
    by blast
qed

subsection \<open>One timer per key\<close>

text \<open>
  Claim C9. In every state the workbench can reach: the key \<^verbatim>\<open>`${docId}_${batchIndex}`\<close>
  determines the document id and the batch index; a call of \<^verbatim>\<open>pollBatchStatus\<close> starts a
  timer of 500 ms under a handle that is neither running nor stored under any key, stores it
  under the key of its batch and leaves every other timer and every other key as they were;
  and clearing the handle stored under one key, alone or inside the poll callback of that
  key, leaves the timer stored under any other key as it was, and the table of handles too.
\<close>

theorem poll_timers_independent:
  assumes "s = wb_run es (wb_init r)"
  shows "(pollId d i = pollId d' i' \<longleftrightarrow> d = d' \<and> i = i')
   \<and> timers s (next_handle s) = None
   \<and> (\<forall>k. wb_pollIntervals s k \<noteq> Some (next_handle s))
   \<and> wb_pollIntervals (wb_pollBatchStatus d i j s) (pollId d i) = Some (next_handle s)
   \<and> timers (wb_pollBatchStatus d i j s) (next_handle s) = Some (PollBatchStatus d i j, 500)
   \<and> (\<forall>h. h \<noteq> next_handle s \<longrightarrow> timers (wb_pollBatchStatus d i j s) h = timers s h)
   \<and> (\<forall>k. k \<noteq> pollId d i \<longrightarrow>
          wb_pollIntervals (wb_pollBatchStatus d i j s) k = wb_pollIntervals s k)
   \<and> (\<forall>k h. k \<noteq> pollId d i \<and> wb_pollIntervals s k = Some h \<longrightarrow>
          timers (clearInterval (wb_pollIntervals s (pollId d i)) s) h = timers s h
        \<and> timers (wb_poll_callback d i j st dr s) h = timers s h
        \<and> wb_pollIntervals (wb_poll_callback d i j st dr s) k = Some h)"
proof -
  have inv: "wb_inv s" unfolding assms by (intro wb_inv_run wb_inv_init)
  have fresh_timer: "timers s (next_handle s) = None"
    using inv unfolding wb_inv_def by (metis less_irrefl)
  have fresh_key: "wb_pollIntervals s k \<noteq> Some (next_handle s)" for k
    using inv unfolding wb_inv_def by (metis less_irrefl)
  have other: "wb_pollIntervals s (pollId d i) \<noteq> Some h"
    if "k \<noteq> pollId d i" and "wb_pollIntervals s k = Some h" for k h
    using inv that unfolding wb_inv_def by metis
  have clear: "timers (clearInterval (wb_pollIntervals s (pollId d i)) s) h = timers s h"
    if "k \<noteq> pollId d i" and "wb_pollIntervals s k = Some h" for k h
    using other [OF that] by (simp add: timers_clearInterval)
  have tick: "timers (wb_poll_callback d i j st dr s) h = timers s h"
    if "k \<noteq> pollId d i" and "wb_pollIntervals s k = Some h" for k h
    using other [OF that] by (simp add: timers_wb_poll_callback split: fetched.splits)
  show ?thesis
    using fresh_timer fresh_key clear tick
    by (auto simp: pollId_inj timers_wb_pollBatchStatus wb_pollIntervals_wb_pollBatchStatus)
qed

theorem poll_timers_independent_witness:
  "pollId ''d'' 1 \<noteq> pollId ''d'' 0
   \<and> wb_pollIntervals
        (wb_run [WbClickProcess ''d'' 0 (Returns \<lparr>dr_success = True, dr_job_id = ''j1'', dr_error = []\<rparr>),
                 WbClickProcess ''d'' 1 (Returns \<lparr>dr_success = True, dr_job_id = ''j2'', dr_error = []\<rparr>)]
           (wb_init (Returns [\<lparr>doc_id = ''d'', filename = ''a.pdf'', total_pages = 4, batch_size = Some 2,
              batches = [\<lparr>b_start = 1, b_end = 2, b_status = ''pending'', b_job_id = None, b_result_file = None\<rparr>,
                         \<lparr>b_start = 3, b_end = 4, b_status = ''pending'', b_job_id = None, b_result_file = None\<rparr>]\<rparr>])))
        (pollId ''d'' 1) = Some 3
   \<and> timers (wb_poll_callback ''d'' 0 ''j1''
               (Returns \<lparr>st_status = ''complete'', st_current_page = 2, st_total_pages = 2,
                          st_message = ''done'', st_filename = ''a.md''\<rparr>) Throws
        (wb_run [WbClickProcess ''d'' 0 (Returns \<lparr>dr_success = True, dr_job_id = ''j1'', dr_error = []\<rparr>),
                 WbClickProcess ''d'' 1 (Returns \<lparr>dr_success = True, dr_job_id = ''j2'', dr_error = []\<rparr>)]
           (wb_init (Returns [\<lparr>doc_id = ''d'', filename = ''a.pdf'', total_pages = 4, batch_size = Some 2,
              batches = [\<lparr>b_start = 1, b_end = 2, b_status = ''pending'', b_job_id = None, b_result_file = None\<rparr>,
                         \<lparr>b_start = 3, b_end = 4, b_status = ''pending'', b_job_id = None, b_result_file = None\<rparr>]\<rparr>])))) 3
     = Some (PollBatchStatus ''d'' 1 ''j2'', 500)"
proof -
  let ?s = "wb_run [WbClickProcess ''d'' 0 (Returns \<lparr>dr_success = True, dr_job_id = ''j1'', dr_error = []\<rparr>),
                 WbClickProcess ''d'' 1 (Returns \<lparr>dr_success = True, dr_job_id = ''j2'', dr_error = []\<rparr>)]
           (wb_init (Returns [\<lparr>doc_id = ''d'', filename = ''a.pdf'', total_pages = 4, batch_size = Some 2,
              batches = [\<lparr>b_start = 1, b_end = 2, b_status = ''pending'', b_job_id = None, b_result_file = None\<rparr>,
                         \<lparr>b_start = 3, b_end = 4, b_status = ''pending'', b_job_id = None, b_result_file = None\<rparr>]\<rparr>]))"
  let ?done = "Returns \<lparr>st_status = ''complete'', st_current_page = 2, st_total_pages = 2,
                          st_message = ''done'', st_filename = ''a.md''\<rparr>"
  have a: "pollId ''d'' 1 \<noteq> pollId ''d'' 0" by (simp add: pollId_inj)
  have b: "wb_pollIntervals ?s (pollId ''d'' 1) = Some 3"
    by (simp add: wb_init_def loadDocuments_def process_button_shown_def
          wb_processBatch_def wb_pollBatchStatus_def setInterval_def emit_def Let_def)
  have c: "timers ?s 3 = Some (PollBatchStatus ''d'' 1 ''j2'', 500)"
    by (simp add: wb_init_def loadDocuments_def process_button_shown_def
          wb_processBatch_def wb_pollBatchStatus_def setInterval_def emit_def Let_def)
  from poll_timers_independent [OF refl, of "''d''" 0 "''d''" 0 _ _ "''j1''" ?done Throws] a b
  have "timers (wb_poll_callback ''d'' 0 ''j1'' ?done Throws ?s) 3 = timers ?s 3"
    by blast
  with a b c show ?thesis by simp
qed

subsection \<open>A status query that fails\<close>

text \<open>
  Claim C10. When the status request of a poll callback throws (workbench and whole-document
  page alike), the callback logs the error and changes nothing else: the state is the old one
  with the request and the console message added to the trace, so the timer is still running,
  and its next firing sends the status request again. A running timer stops only in a step
  that is the firing of a poll timer whose answer carried the status \<^verbatim>\<open>'complete'\<close> or
  \<^verbatim>\<open>'error'\<close>.
\<close>

theorem transport_failure_keeps_polling:
  fixes s :: wb_state and t :: sp_state
  shows
    "(timers s h = Some (PollBatchStatus d i j, ms) \<longrightarrow>
        wb_step (WbTick h Throws dr) s =
          s\<lparr>trace := trace s @ [Fetch ''GET'' (status_url j), ConsoleError ''Status poll error:'']\<rparr>
        \<and> (\<exists>es. trace (wb_step (WbTick h r dr') (wb_step (WbTick h Throws dr) s)) =
                  trace (wb_step (WbTick h Throws dr) s) @ Fetch ''GET'' (status_url j) # es))
   \<and> (timers s k \<noteq> None \<and> timers (wb_step e s) k = None \<longrightarrow>
        (\<exists>h' st dr. e = WbTick h' (Returns st) dr
            \<and> (st_status st = ''complete'' \<or> st_status st = ''error'')))
   \<and> (timers t g = Some (PollStatus j', ms') \<longrightarrow>
        sp_step (SpTick g Throws) t =
          t\<lparr>trace := trace t @ [Fetch ''GET'' (status_url j'), ConsoleError ''Status poll error:'']\<rparr>
        \<and> (\<exists>es. trace (sp_step (SpTick g r') (sp_step (SpTick g Throws) t)) =
                  trace (sp_step (SpTick g Throws) t) @ Fetch ''GET'' (status_url j') # es))
   \<and> (timers t k' \<noteq> None \<and> timers (sp_step e' t) k' = None \<longrightarrow>
        (\<exists>g' st. e' = SpTick g' (Returns st)
            \<and> (st_status st = ''complete'' \<or> st_status st = ''error'')))"
proof (intro conjI impI)
  assume h: "timers s h = Some (PollBatchStatus d i j, ms)"
  then show fail: "wb_step (WbTick h Throws dr) s =
      s\<lparr>trace := trace s @ [Fetch ''GET'' (status_url j), ConsoleError ''Status poll error:'']\<rparr>"
    by (simp add: wb_poll_callback_Throws)
  have "timers (wb_step (WbTick h Throws dr) s) h = Some (PollBatchStatus d i j, ms)"
    unfolding fail using h by simp
  then have "wb_step (WbTick h r dr') (wb_step (WbTick h Throws dr) s)
               = wb_poll_callback d i j r dr' (wb_step (WbTick h Throws dr) s)"
    by simp
  then show "\<exists>es. trace (wb_step (WbTick h r dr') (wb_step (WbTick h Throws dr) s)) =
                  trace (wb_step (WbTick h Throws dr) s) @ Fetch ''GET'' (status_url j) # es"
    using wb_poll_callback_queries by simp
next
  assume "timers s k \<noteq> None \<and> timers (wb_step e s) k = None"
  then show "\<exists>h' st dr. e = WbTick h' (Returns st) dr
            \<and> (st_status st = ''complete'' \<or> st_status st = ''error'')"
    using wb_step_stops by blast
next
  assume g: "timers t g = Some (PollStatus j', ms')"
  then show fail: "sp_step (SpTick g Throws) t =
      t\<lparr>trace := trace t @ [Fetch ''GET'' (status_url j'), ConsoleError ''Status poll error:'']\<rparr>"
    by (simp add: pollStatus_Throws)
  have "timers (sp_step (SpTick g Throws) t) g = Some (PollStatus j', ms')"
    unfolding fail using g by simp
  then have "sp_step (SpTick g r') (sp_step (SpTick g Throws) t)
               = pollStatus j' r' (sp_step (SpTick g Throws) t)"
    by simp
  then show "\<exists>es. trace (sp_step (SpTick g r') (sp_step (SpTick g Throws) t)) =
                  trace (sp_step (SpTick g Throws) t) @ Fetch ''GET'' (status_url j') # es"
    using pollStatus_queries by simp
next
  assume "timers t k' \<noteq> None \<and> timers (sp_step e' t) k' = None"
  then show "\<exists>g' st. e' = SpTick g' (Returns st)
            \<and> (st_status st = ''complete'' \<or> st_status st = ''error'')"
    using sp_step_stops by blast
qed

theorem transport_failure_keeps_polling_witness:
  "timers \<lparr>timers = [2 \<mapsto> (PollBatchStatus ''d'' 0 ''j1'', 500)], next_handle = 3, trace = [],
            documents = [], wb_pollIntervals = [pollId ''d'' 0 \<mapsto> 2]\<rparr> 2
     = Some (PollBatchStatus ''d'' 0 ''j1'', 500)
   \<and> timers (wb_step (WbTick 2 Throws Throws)
        \<lparr>timers = [2 \<mapsto> (PollBatchStatus ''d'' 0 ''j1'', 500)], next_handle = 3, trace = [],
         documents = [], wb_pollIntervals = [pollId ''d'' 0 \<mapsto> 2]\<rparr>) 2
     = Some (PollBatchStatus ''d'' 0 ''j1'', 500)
   \<and> timers (wb_step (WbTick 2 (Returns \<lparr>st_status = ''error'', st_current_page = 2,
                 st_total_pages = 3, st_message = ''OCR failed'', st_filename = []\<rparr>) Throws)
        \<lparr>timers = [2 \<mapsto> (PollBatchStatus ''d'' 0 ''j1'', 500)], next_handle = 3, trace = [],
         documents = [], wb_pollIntervals = [pollId ''d'' 0 \<mapsto> 2]\<rparr>) 2
     = None
   \<and> timers (sp_processFile (Returns \<lparr>pr_success = True, pr_job_id = ''j1'', pr_error = []\<rparr>)
               ((sp_init True)\<lparr>selectedFile := Some \<lparr>f_name = ''a.pdf'', f_type = ''application/pdf''\<rparr>\<rparr>)) 1
     = Some (PollStatus ''j1'', 500)
   \<and> timers (sp_step (SpTick 1 Throws)
        (sp_processFile (Returns \<lparr>pr_success = True, pr_job_id = ''j1'', pr_error = []\<rparr>)
               ((sp_init True)\<lparr>selectedFile := Some \<lparr>f_name = ''a.pdf'', f_type = ''application/pdf''\<rparr>\<rparr>))) 1
     = Some (PollStatus ''j1'', 500)
   \<and> timers (sp_step (SpTick 1 (Returns \<lparr>st_status = ''complete'', st_current_page = 3,
                 st_total_pages = 3, st_message = ''done'', st_filename = ''a.md''\<rparr>))
        (sp_processFile (Returns \<lparr>pr_success = True, pr_job_id = ''j1'', pr_error = []\<rparr>)
               ((sp_init True)\<lparr>selectedFile := Some \<lparr>f_name = ''a.pdf'', f_type = ''application/pdf''\<rparr>\<rparr>))) 1
     = None"
proof -
  let ?s = "\<lparr>timers = [2 \<mapsto> (PollBatchStatus ''d'' 0 ''j1'', 500)], next_handle = 3, trace = [],
            documents = [], wb_pollIntervals = [pollId ''d'' 0 \<mapsto> 2]\<rparr>"
  let ?err = "Returns \<lparr>st_status = ''error'', st_current_page = 2,
                 st_total_pages = 3, st_message = ''OCR failed'', st_filename = []\<rparr>"
  let ?t = "sp_processFile (Returns \<lparr>pr_success = True, pr_job_id = ''j1'', pr_error = []\<rparr>)
               ((sp_init True)\<lparr>selectedFile := Some \<lparr>f_name = ''a.pdf'', f_type = ''application/pdf''\<rparr>\<rparr>)"
  let ?done = "Returns \<lparr>st_status = ''complete'', st_current_page = 3,
                 st_total_pages = 3, st_message = ''done'', st_filename = ''a.md''\<rparr>"
  have a: "timers ?s 2 = Some (PollBatchStatus ''d'' 0 ''j1'', 500)" by simp
  have b: "timers (wb_step (WbTick 2 ?err Throws) ?s) 2 = None"
    by (simp add: timers_wb_poll_callback)
  have c: "timers ?t 1 = Some (PollStatus ''j1'', 500)"
    by (simp add: sp_processFile_def sp_init_def hideStatusMessages_def emit_def setInterval_def)
  have d: "timers (sp_step (SpTick 1 ?done) ?t) 1 = None"
    by (simp add: sp_processFile_def sp_init_def hideStatusMessages_def emit_def setInterval_def
          pollStatus_def clearInterval_def)
  note T = transport_failure_keeps_polling
             [of ?s 2 "''d''" 0 "''j1''" 500 Throws Throws Throws 2 "WbTick 2 ?err Throws"
                 ?t 1 "''j1''" 500 Throws 1 "SpTick 1 ?done"]
  from T a have "wb_step (WbTick 2 Throws Throws) ?s
      = ?s\<lparr>trace := trace ?s @ [Fetch ''GET'' (status_url ''j1''), ConsoleError ''Status poll error:'']\<rparr>"
    by blast
  then have e: "timers (wb_step (WbTick 2 Throws Throws) ?s) 2 = Some (PollBatchStatus ''d'' 0 ''j1'', 500)"
    by simp
  from T c have "sp_step (SpTick 1 Throws) ?t
      = ?t\<lparr>trace := trace ?t @ [Fetch ''GET'' (status_url ''j1''), ConsoleError ''Status poll error:'']\<rparr>"
    by blast
  then have f: "timers (sp_step (SpTick 1 Throws) ?t) 1 = Some (PollStatus ''j1'', 500)"
    using c by simp
  from a b c d e f show ?thesis by blast
qed

end
